theory Spec2Isabelle
  imports Complex_Main
begin

section \<open>Python values used by the analyzers\<close>

text \<open>
  Python strings are modelled as Isabelle strings, one \<open>char\<close> per character, so the model
  covers texts whose characters lie in the 8-bit range (Latin-1); \<open>len\<close> is \<open>length\<close>.
  The numbers that the source keeps as floats (elapsed times, ratios, percentages) are
  modelled as exact rationals.
\<close>

definition uppercase :: string where
  "uppercase = ''ABCDEFGHIJKLMNOPQRSTUVWXYZ'' @
     [CHR 0xC0, CHR 0xC1, CHR 0xC2, CHR 0xC3, CHR 0xC4, CHR 0xC5, CHR 0xC6, CHR 0xC7,
      CHR 0xC8, CHR 0xC9, CHR 0xCA, CHR 0xCB, CHR 0xCC, CHR 0xCD, CHR 0xCE, CHR 0xCF,
      CHR 0xD0, CHR 0xD1, CHR 0xD2, CHR 0xD3, CHR 0xD4, CHR 0xD5, CHR 0xD6,
      CHR 0xD8, CHR 0xD9, CHR 0xDA, CHR 0xDB, CHR 0xDC, CHR 0xDD, CHR 0xDE]"

definition lowercase :: string where
  "lowercase = ''abcdefghijklmnopqrstuvwxyz'' @
     [CHR 0xE0, CHR 0xE1, CHR 0xE2, CHR 0xE3, CHR 0xE4, CHR 0xE5, CHR 0xE6, CHR 0xE7,
      CHR 0xE8, CHR 0xE9, CHR 0xEA, CHR 0xEB, CHR 0xEC, CHR 0xED, CHR 0xEE, CHR 0xEF,
      CHR 0xF0, CHR 0xF1, CHR 0xF2, CHR 0xF3, CHR 0xF4, CHR 0xF5, CHR 0xF6,
      CHR 0xF8, CHR 0xF9, CHR 0xFA, CHR 0xFB, CHR 0xFC, CHR 0xFD, CHR 0xFE]"

definition lower_char :: "char \<Rightarrow> char" where
  "lower_char c = (case map_of (zip uppercase lowercase) c of Some l \<Rightarrow> l | None \<Rightarrow> c)"

definition lower :: "string \<Rightarrow> string" where
  \<comment> \<open>\<open>str.lower()\<close>\<close>
  "lower s = map lower_char s"

fun startswith :: "string \<Rightarrow> string \<Rightarrow> bool" where
  \<comment> \<open>\<open>s.startswith(p)\<close>\<close>
  "startswith s [] = True"
| "startswith [] (p # ps) = False"
| "startswith (c # cs) (p # ps) = (c = p \<and> startswith cs ps)"

fun contains :: "string \<Rightarrow> string \<Rightarrow> bool" where
  \<comment> \<open>\<open>needle in s\<close>\<close>
  "contains needle [] = (needle = [])"
| "contains needle (c # cs) = (startswith (c # cs) needle \<or> contains needle cs)"

fun findall_count :: "string \<Rightarrow> string \<Rightarrow> nat" where
  \<comment> \<open>\<open>len(re.findall(pat, s))\<close> for a literal, non-empty pattern: the matches are found
      from left to right and do not overlap.\<close>
  "findall_count pat [] = 0"
| "findall_count pat (c # cs) =
     (if startswith (c # cs) pat then Suc (findall_count pat (drop (length pat - 1) cs))
      else findall_count pat cs)"

definition whitespace :: "char list" where
  \<comment> \<open>the characters of the 8-bit range that \<open>str.isspace\<close> accepts\<close>
  "whitespace =
     [CHR 0x09, CHR 0x0A, CHR 0x0B, CHR 0x0C, CHR 0x0D, CHR 0x1C, CHR 0x1D, CHR 0x1E,
      CHR 0x1F, CHR 0x20, CHR 0x85, CHR 0xA0]"

definition strip :: "string \<Rightarrow> string" where
  \<comment> \<open>\<open>s.strip()\<close>\<close>
  "strip s =
     rev (dropWhile (\<lambda>c. c \<in> set whitespace) (rev (dropWhile (\<lambda>c. c \<in> set whitespace) s)))"

fun split_on :: "char \<Rightarrow> string \<Rightarrow> string list" where
  \<comment> \<open>\<open>s.split(sep)\<close> for a separator of one character\<close>
  "split_on sep [] = [[]]"
| "split_on sep (c # cs) =
     (if c = sep then [] # split_on sep cs
      else (case split_on sep cs of
              [] \<Rightarrow> [[c]]
            | part # parts \<Rightarrow> (c # part) # parts))"

definition sum_bools :: "bool list \<Rightarrow> nat" where
  \<comment> \<open>\<open>sum\<close> of a list of booleans: the number of \<open>True\<close>\<close>
  "sum_bools bs = length (filter (\<lambda>b. b) bs)"

definition any_py :: "bool list \<Rightarrow> bool" where
  "any_py bs = list_ex (\<lambda>b. b) bs"

fun insert_desc :: "('a \<Rightarrow> nat) \<Rightarrow> 'a \<Rightarrow> 'a list \<Rightarrow> 'a list" where
  "insert_desc key x [] = [x]"
| "insert_desc key x (y # ys) =
     (if key x \<ge> key y then x # y # ys else y # insert_desc key x ys)"

definition sorted_reverse :: "('a \<Rightarrow> nat) \<Rightarrow> 'a list \<Rightarrow> 'a list" where
  \<comment> \<open>\<open>sorted(xs, key=key, reverse=True)\<close>: the greatest key first; elements with equal
      keys keep the order they have in \<open>xs\<close> (Python's sort is stable, also when
      reversed)\<close>
  "sorted_reverse key xs = foldr (insert_desc key) xs []"

fun dict_set :: "('k \<times> 'v) list \<Rightarrow> 'k \<Rightarrow> 'v \<Rightarrow> ('k \<times> 'v) list" where
  \<comment> \<open>\<open>d[k] = v\<close> on a dict, which keeps its keys in insertion order\<close>
  "dict_set [] k v = [(k, v)]"
| "dict_set ((k', v') # kvs) k v =
     (if k' = k then (k, v) # kvs else (k', v') # dict_set kvs k v)"

section \<open>Errors\<close>

type_synonym exn = string
  \<comment> \<open>an exception raised by a collaborator (HTTP client, browser, parser), as \<open>str(e)\<close>\<close>

datatype url_problem =
    Missing_domain
  | Unsupported_scheme
  | Bad_domain_format
  | Urlparse_failed exn

datatype value_error =
    Url_empty
  | Url_validation url_problem
  | Invalid_url_text

text \<open>
  The exceptions that can leave a function of the repository. \<open>NetworkError\<close> is an
  exception of the HTTP client, \<open>FetchError\<close> the exception that \<open>get_page_content\<close>
  raises around any failure to load or parse the page, \<open>Raised\<close> any other exception of a
  collaborator, and \<open>AnalysisError\<close> the exception that \<open>analyze_website\<close> raises around
  a failure of an analysis.
\<close>

datatype error =
    NetworkError exn
  | FetchError exn
  | Raised exn
  | ZeroDivisionError
  | TypeError
  | AttributeError
  | ValueError value_error
  | AnalysisError error

section \<open>The protection analyzer (\<open>protection_analyzer.py\<close>)\<close>

subsection \<open>The network, the browser and the clock\<close>

record response =
  resp_status_code :: int
  resp_content_length :: nat
  resp_text :: string
  resp_headers :: "(string \<times> string) list"
  resp_cookies :: nat
  resp_elapsed :: rat

text \<open>
  The world answers the analyzer: \<open>http_get w n\<close> is the outcome of the \<open>n\<close>-th call of
  an HTTP client's \<open>get\<close> (a response, or the exception it raises, after the transport's
  own retries), \<open>chrome_start w n\<close> the exception of the \<open>n\<close>-th attempt to start the
  headless browser (if any), \<open>page_source w n\<close> the outcome of the \<open>n\<close>-th page load in
  it. \<open>sequence_ratio\<close> is \<open>difflib.SequenceMatcher(None, a, b).ratio()\<close>,
  \<open>rate_limit_total_time\<close> what \<open>time.time()\<close> measures around the rate-limit loop and
  \<open>strftime\<close> the formatted time of the run.
\<close>

record world =
  http_get :: "nat \<Rightarrow> exn + response"
  chrome_start :: "nat \<Rightarrow> exn option"
  page_source :: "nat \<Rightarrow> exn + string"
  sequence_ratio :: "string \<Rightarrow> string \<Rightarrow> rat"
  rate_limit_total_time :: rat
  strftime :: string

record capabilities =
  UA_AVAILABLE :: bool
  CLOUDSCRAPER_AVAILABLE :: bool
  SELENIUM_AVAILABLE :: bool

text \<open>
  The analyzer object: \<open>driver\<close> says whether \<open>self.driver\<close> is set; the counters record
  the traffic caused so far, so that what a run evaluates can be observed.
\<close>

record analyzer =
  driver :: bool
  requests_made :: nat
  chrome_starts :: nat
  page_loads :: nat

definition session_get :: "world \<Rightarrow> analyzer \<Rightarrow> (exn + response) \<times> analyzer" where
  "session_get w a = (http_get w (requests_made a), a\<lparr>requests_made := Suc (requests_made a)\<rparr>)"

definition browse :: "world \<Rightarrow> analyzer \<Rightarrow> (exn + string) \<times> analyzer" where
  \<comment> \<open>\<open>if not self.driver: self.driver = uc.Chrome(...)\<close>, then \<open>self.driver.get(url)\<close>
      and \<open>self.driver.page_source\<close>\<close>
  "browse w a =
     (if driver a then (page_source w (page_loads a), a\<lparr>page_loads := Suc (page_loads a)\<rparr>)
      else (case chrome_start w (chrome_starts a) of
              Some e \<Rightarrow> (Inl e, a\<lparr>chrome_starts := Suc (chrome_starts a)\<rparr>)
            | None \<Rightarrow>
                (page_source w (page_loads a),
                 a\<lparr>driver := True, chrome_starts := Suc (chrome_starts a),
                   page_loads := Suc (page_loads a)\<rparr>)))"

subsection \<open>Findings\<close>

datatype description =
    Status_size int nat
  | Blocked_user_agents nat nat
  | Blocked_requests nat nat
  | Cloudflare_found
  | Cloudflare_not_found
  | Cloudflare_check_error
  | Content_differs rat
  | Javascript_check_error
  | Javascript_maybe_required
  | Javascript_not_required
  | Captcha_found
  | Captcha_not_found
  | Captcha_check_error
  | Cookies_in_use nat
  | Cookies_check_error

datatype bypass_description =
    Standard_requests
  | Requests_with_session
  | Fake_user_agent
  | CloudScraper
  | Undetected_Chrome

record basic_access =
  ba_status_code :: int
  ba_accessible :: bool
  ba_error :: "exn option"
  ba_content_length :: nat
  ba_response_time :: rat
  ba_headers :: "(string \<times> string) list"

record ua_entry =
  ua_user_agent :: string
  ua_status_code :: int
  ua_content_length :: nat
  ua_blocked :: bool
  ua_error :: "exn option"

record ua_protection =
  ua_results :: "ua_entry list"
  ua_protection_detected :: bool
  ua_protection_strength :: rat
  ua_description :: description

record rl_entry =
  rl_request_num :: nat
  rl_status_code :: int
  rl_response_time :: rat
  rl_blocked :: bool
  rl_error :: "exn option"

record rate_limiting =
  rl_results :: "rl_entry list"
  rl_total_requests :: nat
  rl_blocked_requests :: nat
  rl_total_time :: rat
  rl_requests_per_second :: rat
  rl_protection_detected :: bool
  rl_description :: description

record cloudflare =
  cf_detected :: bool
  cf_indicators_found :: "nat option"
  cf_server_header :: "string option"
  cf_ray :: "string option"
  cf_error :: "exn option"
  cf_description :: description

record javascript =
  js_required :: bool
  js_content_difference :: "rat option"
  js_similarity :: "rat option"
  js_indicators_found :: "nat option"
  js_error :: "exn option"
  js_description :: description

record captcha =
  cap_detected :: bool
  cap_indicators_found :: "nat option"
  cap_error :: "exn option"
  cap_description :: description

record cookie_requirements =
  ck_cookies_used :: bool
  ck_cookies_count :: "nat option"
  ck_error :: "exn option"
  ck_description :: description

record bypass =
  bp_success :: bool
  bp_status_code :: "int option"
  bp_error :: "exn option"
  bp_description :: bypass_description

record finding =
  detected :: bool
  score :: int
  description :: description

record protection_report =
  pr_url :: string
  pr_timestamp :: string
  mechanisms :: "(string \<times> finding) list"
  bypass_methods :: "(string \<times> bypass) list"
  total_score :: int
  complexity_level :: string
  best_method :: "string option"
  bypass_success_rate :: "rat option"

subsection \<open>The probes\<close>

definition check_basic_access :: "world \<Rightarrow> analyzer \<Rightarrow> basic_access \<times> analyzer" where
  "check_basic_access w a =
     (let (r, a1) = session_get w a in
      (case r of
         Inr response \<Rightarrow>
           \<lparr>ba_status_code = resp_status_code response,
            ba_accessible = (resp_status_code response = 200),
            ba_error = None,
            ba_content_length = resp_content_length response,
            ba_response_time = resp_elapsed response,
            ba_headers = resp_headers response\<rparr>
       | Inl e \<Rightarrow>
           \<lparr>ba_status_code = 0, ba_accessible = False, ba_error = Some e,
            ba_content_length = 0, ba_response_time = 0, ba_headers = []\<rparr>,
       a1))"

definition user_agents :: "string list" where
  "user_agents =
     [''Mozilla/5.0 (Windows NT 10.0; Win64; x64) AppleWebKit/537.36'',
      ''Python-requests/2.25.1'',
      ''curl/7.68.0'',
      ''bot/1.0'']"

fun ua_requests :: "world \<Rightarrow> string list \<Rightarrow> analyzer \<Rightarrow> ua_entry list \<times> analyzer" where
  \<comment> \<open>the loop \<open>for ua in user_agents\<close>, one request each\<close>
  "ua_requests w [] a = ([], a)"
| "ua_requests w (ua # uas) a =
     (let (r, a1) = session_get w a;
          entry = (case r of
                     Inr response \<Rightarrow>
                       \<lparr>ua_user_agent = ua,
                        ua_status_code = resp_status_code response,
                        ua_content_length = resp_content_length response,
                        ua_blocked = (resp_status_code response \<in> {403, 429, 503}),
                        ua_error = None\<rparr>
                   | Inl e \<Rightarrow>
                       \<lparr>ua_user_agent = ua, ua_status_code = 0, ua_content_length = 0,
                        ua_blocked = True, ua_error = Some e\<rparr>);
          (rest, a2) = ua_requests w uas a1
      in (entry # rest, a2))"

definition check_user_agent_protection :: "world \<Rightarrow> analyzer \<Rightarrow> ua_protection \<times> analyzer" where
  "check_user_agent_protection w a =
     (let (results, a1) = ua_requests w user_agents a;
          blocked_count = length (filter ua_blocked results)
      in (\<lparr>ua_results = results,
           ua_protection_detected = (blocked_count > 0),
           ua_protection_strength = of_nat blocked_count / of_nat (length results),
           ua_description = Blocked_user_agents blocked_count (length results)\<rparr>,
          a1))"

fun rl_requests :: "world \<Rightarrow> nat list \<Rightarrow> analyzer \<Rightarrow> rl_entry list \<times> analyzer" where
  \<comment> \<open>the loop \<open>for i in range(request_count)\<close>, one request each\<close>
  "rl_requests w [] a = ([], a)"
| "rl_requests w (i # is) a =
     (let (r, a1) = session_get w a;
          entry = (case r of
                     Inr response \<Rightarrow>
                       \<lparr>rl_request_num = i + 1,
                        rl_status_code = resp_status_code response,
                        rl_response_time = resp_elapsed response,
                        rl_blocked = (resp_status_code response \<in> {429, 503}),
                        rl_error = None\<rparr>
                   | Inl e \<Rightarrow>
                       \<lparr>rl_request_num = i + 1, rl_status_code = 0, rl_response_time = 0,
                        rl_blocked = True, rl_error = Some e\<rparr>);
          (rest, a2) = rl_requests w is a1
      in (entry # rest, a2))"

definition check_rate_limiting :: "world \<Rightarrow> analyzer \<Rightarrow> error + (rate_limiting \<times> analyzer)" where
  \<comment> \<open>\<open>request_count / total_time\<close> is outside every \<open>try\<close>: a measured time of zero
      raises \<open>ZeroDivisionError\<close>\<close>
  "check_rate_limiting w a =
     (let request_count = 10;
          (results, a1) = rl_requests w [0..<request_count] a;
          total_time = rate_limit_total_time w;
          blocked_count = length (filter rl_blocked results)
      in if total_time = 0 then Inl ZeroDivisionError
         else Inr (\<lparr>rl_results = results,
                    rl_total_requests = request_count,
                    rl_blocked_requests = blocked_count,
                    rl_total_time = total_time,
                    rl_requests_per_second = of_nat request_count / total_time,
                    rl_protection_detected = (blocked_count > 0),
                    rl_description = Blocked_requests blocked_count request_count\<rparr>,
                   a1))"

definition headers_get :: "(string \<times> string) list \<Rightarrow> string \<Rightarrow> string option" where
  \<comment> \<open>lookup in the response's headers, whose keys compare without case\<close>
  "headers_get hs k = map_option snd (find (\<lambda>(k', v). lower k' = lower k) hs)"

definition check_cloudflare_protection :: "world \<Rightarrow> analyzer \<Rightarrow> cloudflare \<times> analyzer" where
  "check_cloudflare_protection w a =
     (let (r, a1) = session_get w a in
      (case r of
         Inr response \<Rightarrow>
           (let server = (case headers_get (resp_headers response) ''server'' of
                            Some v \<Rightarrow> v | None \<Rightarrow> []);
                cf_indicators =
                  [contains ''cloudflare'' (lower server),
                   headers_get (resp_headers response) ''cf-ray'' \<noteq> None,
                   contains ''__cfduid''
                     (case headers_get (resp_headers response) ''set-cookie'' of
                        Some v \<Rightarrow> v | None \<Rightarrow> []),
                   contains ''checking your browser'' (lower (resp_text response)),
                   contains ''cloudflare ray id'' (lower (resp_text response)),
                   contains ''cf-browser-verification'' (resp_text response)];
                detected = any_py cf_indicators
            in \<lparr>cf_detected = detected,
                cf_indicators_found = Some (sum_bools cf_indicators),
                cf_server_header = Some server,
                cf_ray = Some (case headers_get (resp_headers response) ''cf-ray'' of
                                 Some v \<Rightarrow> v | None \<Rightarrow> []),
                cf_error = None,
                cf_description = (if detected then Cloudflare_found else Cloudflare_not_found)\<rparr>)
       | Inl e \<Rightarrow>
           \<lparr>cf_detected = False, cf_indicators_found = None, cf_server_header = None,
            cf_ray = None, cf_error = Some e, cf_description = Cloudflare_check_error\<rparr>,
       a1))"

definition js_indicators :: "string \<Rightarrow> bool list" where
  \<comment> \<open>the heuristic indicators; \<open>re.I\<close> compares without case\<close>
  "js_indicators content_no_js =
     [findall_count ''<script'' (lower content_no_js) > 10,
      contains ''loading'' (lower content_no_js),
      contains ''please wait'' (lower content_no_js),
      contains ''javascript'' (lower content_no_js),
      length content_no_js < 1000]"

definition check_javascript_protection ::
  "capabilities \<Rightarrow> world \<Rightarrow> analyzer \<Rightarrow> javascript \<times> analyzer" where
  "check_javascript_protection caps w a =
     (let (r, a1) = session_get w a in
      (case r of
         Inl e \<Rightarrow>
           (\<lparr>js_required = False, js_content_difference = None, js_similarity = None,
             js_indicators_found = None, js_error = Some e,
             js_description = Javascript_check_error\<rparr>, a1)
       | Inr response_no_js \<Rightarrow>
           (let content_no_js = resp_text response_no_js in
            if SELENIUM_AVAILABLE caps then
              (let (p, a2) = browse w a1 in
               (case p of
                  Inr content_with_js \<Rightarrow>
                    (let similarity = sequence_ratio w content_no_js content_with_js;
                         difference = 1 - similarity
                     in \<lparr>js_required = (difference > 3 / 10),
                         js_content_difference = Some (difference * 100),
                         js_similarity = Some (similarity * 100),
                         js_indicators_found = None,
                         js_error = None,
                         js_description = Content_differs (difference * 100)\<rparr>)
                | Inl e \<Rightarrow>
                    \<lparr>js_required = False, js_content_difference = None, js_similarity = None,
                     js_indicators_found = None, js_error = Some e,
                     js_description = Javascript_check_error\<rparr>,
                a2))
            else
              (let detected = (sum_bools (js_indicators content_no_js) \<ge> 2)
               in (\<lparr>js_required = detected,
                    js_content_difference = None,
                    js_similarity = None,
                    js_indicators_found = Some (sum_bools (js_indicators content_no_js)),
                    js_error = None,
                    js_description = (if detected then Javascript_maybe_required
                                      else Javascript_not_required)\<rparr>, a1)))))"

definition check_captcha_protection :: "world \<Rightarrow> analyzer \<Rightarrow> captcha \<times> analyzer" where
  "check_captcha_protection w a =
     (let (r, a1) = session_get w a in
      (case r of
         Inr response \<Rightarrow>
           (let content = lower (resp_text response);
                captcha_indicators =
                  [contains ''recaptcha'' content,
                   contains ''captcha'' content,
                   contains ''hcaptcha'' content,
                   contains ''solve the puzzle'' content,
                   contains ''verify you are human'' content,
                   contains ''geetest'' content];
                detected = any_py captcha_indicators
            in \<lparr>cap_detected = detected,
                cap_indicators_found = Some (sum_bools captcha_indicators),
                cap_error = None,
                cap_description = (if detected then Captcha_found else Captcha_not_found)\<rparr>)
       | Inl e \<Rightarrow>
           \<lparr>cap_detected = False, cap_indicators_found = None, cap_error = Some e,
            cap_description = Captcha_check_error\<rparr>,
       a1))"

definition check_cookie_requirements :: "world \<Rightarrow> analyzer \<Rightarrow> cookie_requirements \<times> analyzer" where
  \<comment> \<open>two requests, the second in a fresh session; a failure of the first skips the second\<close>
  "check_cookie_requirements w a =
     (let (r, a1) = session_get w a in
      (case r of
         Inl e \<Rightarrow>
           (\<lparr>ck_cookies_used = False, ck_cookies_count = None, ck_error = Some e,
             ck_description = Cookies_check_error\<rparr>, a1)
       | Inr response_no_cookies \<Rightarrow>
           (let (r2, a2) = session_get w a1 in
            (case r2 of
               Inl e \<Rightarrow>
                 \<lparr>ck_cookies_used = False, ck_cookies_count = None, ck_error = Some e,
                  ck_description = Cookies_check_error\<rparr>
             | Inr response_with_cookies \<Rightarrow>
                 (let cookies_count = resp_cookies response_with_cookies
                  in \<lparr>ck_cookies_used = (cookies_count > 0),
                      ck_cookies_count = Some cookies_count,
                      ck_error = None,
                      ck_description = Cookies_in_use cookies_count\<rparr>),
             a2))))"

definition http_attempt :: "bypass_description \<Rightarrow> exn + response \<Rightarrow> bypass" where
  \<comment> \<open>the entry that each of the HTTP methods records, from a response or an exception\<close>
  "http_attempt d r =
     (case r of
        Inr response \<Rightarrow>
          \<lparr>bp_success = (resp_status_code response = 200),
           bp_status_code = Some (resp_status_code response),
           bp_error = None, bp_description = d\<rparr>
      | Inl e \<Rightarrow>
          \<lparr>bp_success = False, bp_status_code = None, bp_error = Some e, bp_description = d\<rparr>)"

definition test_bypass_methods ::
  "capabilities \<Rightarrow> world \<Rightarrow> analyzer \<Rightarrow> (string \<times> bypass) list \<times> analyzer" where
  "test_bypass_methods caps w a =
     (let methods = [];
          (r, a1) = session_get w a;
          methods = dict_set methods ''requests'' (http_attempt Standard_requests r);
          (r, a2) = session_get w a1;
          methods = dict_set methods ''requests_session'' (http_attempt Requests_with_session r);
          (methods, a3) =
            (if UA_AVAILABLE caps then
               (let (r, a') = session_get w a2
                in (dict_set methods ''fake_useragent'' (http_attempt Fake_user_agent r), a'))
             else (methods, a2));
          (methods, a4) =
            (if CLOUDSCRAPER_AVAILABLE caps then
               (let (r, a') = session_get w a3
                in (dict_set methods ''cloudscraper'' (http_attempt CloudScraper r), a'))
             else (methods, a3));
          (methods, a5) =
            (if SELENIUM_AVAILABLE caps then
               (let (p, a') = browse w a4
                in (dict_set methods ''undetected_chrome''
                      (case p of
                         Inr source \<Rightarrow>
                           \<lparr>bp_success = (\<not> contains ''error'' (lower source)),
                            bp_status_code = None, bp_error = None,
                            bp_description = Undetected_Chrome\<rparr>
                       | Inl e \<Rightarrow>
                           \<lparr>bp_success = False, bp_status_code = None, bp_error = Some e,
                            bp_description = Undetected_Chrome\<rparr>), a'))
             else (methods, a4))
      in (methods, a5))"

subsection \<open>The analysis\<close>

definition set_mechanism ::
  "string \<Rightarrow> finding \<Rightarrow> protection_report \<Rightarrow> protection_report" where
  \<comment> \<open>\<open>results['mechanisms'][name] = {...}\<close>\<close>
  "set_mechanism name f results =
     results\<lparr>mechanisms := dict_set (mechanisms results) name f\<rparr>"

definition score_and_rank :: "protection_report \<Rightarrow> protection_report" where
  \<comment> \<open>the end of \<open>ProtectionAnalyzer.analyze\<close>: the total score, the complexity level and the best bypass
      method, computed from the mechanisms and the bypass methods recorded so far\<close>
  "score_and_rank results0 =
     (let results = results0\<lparr>total_score :=
            sum_list (map (\<lambda>mechanism. score mechanism) (map snd (mechanisms results0)))\<rparr>;
          results = results\<lparr>complexity_level :=
            (if total_score results \<ge> 80 then ''CRITICAL''
             else if total_score results \<ge> 60 then ''HIGH''
             else if total_score results \<ge> 40 then ''MEDIUM''
             else ''LOW'')\<rparr>;
          successful_methods =
            map fst (filter (\<lambda>(method, data). bp_success data) (bypass_methods results))
      in if successful_methods \<noteq> [] then
           results\<lparr>best_method := Some (hd successful_methods),
             bypass_success_rate :=
               Some (of_nat (length successful_methods)
                     / of_nat (length (bypass_methods results)) * 100)\<rparr>
         else results\<lparr>best_method := Some ''selenium'', bypass_success_rate := Some 0\<rparr>)"

definition protection_analyze ::
  "capabilities \<Rightarrow> world \<Rightarrow> string \<Rightarrow> analyzer \<Rightarrow> error + (protection_report \<times> analyzer)" where
  "protection_analyze caps w url a =
     (let results = \<lparr>pr_url = url, pr_timestamp = strftime w, mechanisms = [],
                     bypass_methods = [], total_score = 0, complexity_level = ''LOW'',
                     best_method = None, bypass_success_rate = None\<rparr>;
          (basic_access, a1) = check_basic_access w a;
          results = set_mechanism ''basic_access''
            \<lparr>detected = ba_accessible basic_access,
             score = (if ba_accessible basic_access then 10 else 0),
             description = Status_size (ba_status_code basic_access)
                             (ba_content_length basic_access)\<rparr> results
      in if \<not> ba_accessible basic_access then
           Inr (results\<lparr>total_score := 100, complexity_level := ''CRITICAL''\<rparr>, a1)
         else
           (let (ua_protection, a2) = check_user_agent_protection w a1;
                results = set_mechanism ''user_agent''
                  \<lparr>detected = ua_protection_detected ua_protection,
                   score = (if ua_protection_detected ua_protection then 20 else 5),
                   description = ua_description ua_protection\<rparr> results
            in case check_rate_limiting w a2 of
                 Inl e \<Rightarrow> Inl e
               | Inr (rate_limiting, a3) \<Rightarrow>
           (let results = set_mechanism ''rate_limiting''
                  \<lparr>detected = rl_protection_detected rate_limiting,
                   score = (if rl_protection_detected rate_limiting then 15 else 5),
                   description = rl_description rate_limiting\<rparr> results;
                (cloudflare, a4) = check_cloudflare_protection w a3;
                results = set_mechanism ''cloudflare''
                  \<lparr>detected = cf_detected cloudflare,
                   score = (if cf_detected cloudflare then 25 else 0),
                   description = cf_description cloudflare\<rparr> results;
                (javascript, a5) = check_javascript_protection caps w a4;
                results = set_mechanism ''javascript''
                  \<lparr>detected = js_required javascript,
                   score = (if js_required javascript then 30 else 10),
                   description = js_description javascript\<rparr> results;
                (captcha, a6) = check_captcha_protection w a5;
                results = set_mechanism ''captcha''
                  \<lparr>detected = cap_detected captcha,
                   score = (if cap_detected captcha then 40 else 0),
                   description = cap_description captcha\<rparr> results;
                (cookies, a7) = check_cookie_requirements w a6;
                results = set_mechanism ''cookies''
                  \<lparr>detected = ck_cookies_used cookies,
                   score = (if ck_cookies_used cookies then 10 else 5),
                   description = ck_description cookies\<rparr> results;
                (methods, a8) = test_bypass_methods caps w a7;
                results = results\<lparr>bypass_methods := methods\<rparr>
            in Inr (score_and_rank results, a8))))"

section \<open>The structure analyzer (\<open>structure_analyzer.py\<close>)\<close>

subsection \<open>The page and the parsed document\<close>

text \<open>
  The HTML parser is a collaborator, and a parsed document is what it answers:
  \<open>select soup selector\<close> is \<open>soup.select(selector)\<close>, the matching elements in document
  order or the exception raised for a selector that cannot be evaluated;
  \<open>find_all_class soup keyword\<close> and \<open>find_all_id soup keyword\<close> are
  \<open>soup.find_all(attrs={'class': re.compile(keyword, re.I)})\<close> and the same for \<open>id\<close>;
  \<open>element_text soup e\<close> is \<open>e.get_text()\<close>. The elements have a type \<open>'e\<close> whose equality
  is the one that a Python \<open>set\<close> of elements uses.
\<close>

record 'e soup =
  select :: "string \<Rightarrow> exn + 'e list"
  find_all_class :: "string \<Rightarrow> 'e list"
  find_all_id :: "string \<Rightarrow> 'e list"
  element_text :: "'e \<Rightarrow> string"

text \<open>
  The response to the request for the page: \<open>pg_raise_for_status\<close> is the exception of
  \<open>response.raise_for_status()\<close> (if any), \<open>pg_encoding\<close> is \<open>response.encoding\<close>, which
  may be \<open>None\<close>, and \<open>pg_soup\<close> the outcome of parsing the content.
\<close>

record 'e page_response =
  pg_raise_for_status :: "exn option"
  pg_encoding :: "string option"
  pg_soup :: "exn + 'e soup"

record 'e web =
  page_get :: "exn + 'e page_response"
  web_strftime :: string

definition get_page_content :: "'e web \<Rightarrow> error + 'e soup" where
  \<comment> \<open>every exception inside is caught and raised again as one exception that carries its
      text\<close>
  "get_page_content web =
     (case page_get web of
        Inl e \<Rightarrow> Inl (FetchError e)
      | Inr response \<Rightarrow>
          (case pg_raise_for_status response of
             Some e \<Rightarrow> Inl (FetchError e)
           | None \<Rightarrow>
               (case pg_encoding response of
                  None \<Rightarrow> Inl (FetchError ''AttributeError'')
                | Some encoding \<Rightarrow>
                    (case pg_soup response of
                       Inl e \<Rightarrow> Inl (FetchError e)
                     | Inr soup \<Rightarrow> Inr soup))))"

subsection \<open>Content types\<close>

definition patterns :: "(string \<times> string list \<times> string list) list" where
  \<comment> \<open>for each content type its selectors and its keywords; the Cyrillic keywords are
      written as the bytes of their UTF-8 encoding and are only handed to the parser\<close>
  "patterns =
     [(''products'',
       [''[class*=\"product\"]'', ''[class*=\"item\"]'', ''[class*=\"card\"]'',
        ''[data-product]'', ''[data-item]'', ''[itemtype*=\"Product\"]'',
        ''[class*=\"goods\"]'', ''[class*=\"catalog\"]''],
       [''price'', ''buy'', ''cart'', ''product'', ''item'',
        [CHR 0xD1, CHR 0x82, CHR 0xD0, CHR 0xBE, CHR 0xD0, CHR 0xB2, CHR 0xD0, CHR 0xB0,
         CHR 0xD1, CHR 0x80],
        [CHR 0xD1, CHR 0x86, CHR 0xD0, CHR 0xB5, CHR 0xD0, CHR 0xBD, CHR 0xD0, CHR 0xB0]]),
      (''articles'',
       [''article'', ''[class*=\"article\"]'', ''[class*=\"post\"]'',
        ''[class*=\"news\"]'', ''[class*=\"blog\"]'', ''[class*=\"content\"]''],
       [''read'', ''article'', ''post'', ''news'', ''blog'',
        [CHR 0xD1, CHR 0x81, CHR 0xD1, CHR 0x82, CHR 0xD0, CHR 0xB0, CHR 0xD1, CHR 0x82,
         CHR 0xD1, CHR 0x8C, CHR 0xD1, CHR 0x8F],
        [CHR 0xD0, CHR 0xBD, CHR 0xD0, CHR 0xBE, CHR 0xD0, CHR 0xB2, CHR 0xD0, CHR 0xBE,
         CHR 0xD1, CHR 0x81, CHR 0xD1, CHR 0x82, CHR 0xD0, CHR 0xB8]]),
      (''navigation'',
       [''nav'', ''[class*=\"nav\"]'', ''[class*=\"menu\"]'',
        ''[class*=\"breadcrumb\"]'', ''[role=\"navigation\"]'',
        ''ul.menu'', ''ul.nav''],
       [''menu'', ''navigation'', ''nav'', ''breadcrumb'',
        [CHR 0xD0, CHR 0xBC, CHR 0xD0, CHR 0xB5, CHR 0xD0, CHR 0xBD, CHR 0xD1, CHR 0x8E],
        [CHR 0xD0, CHR 0xBD, CHR 0xD0, CHR 0xB0, CHR 0xD0, CHR 0xB2, CHR 0xD0, CHR 0xB8,
         CHR 0xD0, CHR 0xB3, CHR 0xD0, CHR 0xB0, CHR 0xD1, CHR 0x86, CHR 0xD0, CHR 0xB8,
         CHR 0xD1, CHR 0x8F]]),
      (''forms'',
       [''form'', ''[class*=\"form\"]'', ''[class*=\"search\"]'',
        ''[class*=\"contact\"]'', ''[class*=\"subscribe\"]'', ''input'', ''textarea''],
       [''form'', ''search'', ''contact'', ''subscribe'', ''login'',
        [CHR 0xD1, CHR 0x84, CHR 0xD0, CHR 0xBE, CHR 0xD1, CHR 0x80, CHR 0xD0, CHR 0xBC,
         CHR 0xD0, CHR 0xB0],
        [CHR 0xD0, CHR 0xBF, CHR 0xD0, CHR 0xBE, CHR 0xD0, CHR 0xB8, CHR 0xD1, CHR 0x81,
         CHR 0xD0, CHR 0xBA]]),
      (''lists'',
       [''[class*=\"list\"]'', ''[class*=\"grid\"]'', ''[class*=\"catalog\"]'',
        ''ul'', ''ol'', ''[class*=\"items\"]'', ''table''],
       [''list'', ''grid'', ''catalog'', ''items'', ''collection'',
        [CHR 0xD1, CHR 0x81, CHR 0xD0, CHR 0xBF, CHR 0xD0, CHR 0xB8, CHR 0xD1, CHR 0x81,
         CHR 0xD0, CHR 0xBE, CHR 0xD0, CHR 0xBA],
        [CHR 0xD0, CHR 0xBA, CHR 0xD0, CHR 0xB0, CHR 0xD1, CHR 0x82, CHR 0xD0, CHR 0xB0,
         CHR 0xD0, CHR 0xBB, CHR 0xD0, CHR 0xBE, CHR 0xD0, CHR 0xB3]]),
      (''media'',
       [''img'', ''video'', ''audio'', ''[class*=\"image\"]'',
        ''[class*=\"photo\"]'', ''[class*=\"gallery\"]'', ''picture''],
       [''image'', ''photo'', ''gallery'', ''video'', ''media'',
        [CHR 0xD0, CHR 0xB8, CHR 0xD0, CHR 0xB7, CHR 0xD0, CHR 0xBE, CHR 0xD0, CHR 0xB1,
         CHR 0xD1, CHR 0x80, CHR 0xD0, CHR 0xB0, CHR 0xD0, CHR 0xB6, CHR 0xD0, CHR 0xB5,
         CHR 0xD0, CHR 0xBD, CHR 0xD0, CHR 0xB8, CHR 0xD0, CHR 0xB5],
        [CHR 0xD1, CHR 0x84, CHR 0xD0, CHR 0xBE, CHR 0xD1, CHR 0x82, CHR 0xD0, CHR 0xBE]]),
      (''text_content'',
       [''p'', ''div'', ''span'', ''[class*=\"text\"]'',
        ''[class*=\"description\"]'', ''[class*=\"content\"]''],
       [''text'', ''description'', ''content'', ''paragraph'',
        [CHR 0xD1, CHR 0x82, CHR 0xD0, CHR 0xB5, CHR 0xD0, CHR 0xBA, CHR 0xD1, CHR 0x81,
         CHR 0xD1, CHR 0x82],
        [CHR 0xD0, CHR 0xBE, CHR 0xD0, CHR 0xBF, CHR 0xD0, CHR 0xB8, CHR 0xD1, CHR 0x81,
         CHR 0xD0, CHR 0xB0, CHR 0xD0, CHR 0xBD, CHR 0xD0, CHR 0xB8, CHR 0xD0, CHR 0xB5]])]"

fun select_into :: "'e soup \<Rightarrow> string list \<Rightarrow> 'e set \<Rightarrow> 'e set" where
  \<comment> \<open>the loop over the selectors; a selector that raises is skipped\<close>
  "select_into soup [] elements_found = elements_found"
| "select_into soup (selector # selectors) elements_found =
     (case select soup selector of
        Inr found \<Rightarrow> select_into soup selectors (elements_found \<union> set found)
      | Inl e \<Rightarrow> select_into soup selectors elements_found)"

fun keywords_into :: "'e soup \<Rightarrow> string list \<Rightarrow> 'e set \<Rightarrow> 'e set" where
  \<comment> \<open>the loop over the keywords, in the classes and in the ids\<close>
  "keywords_into soup [] elements_found = elements_found"
| "keywords_into soup (keyword # keywords) elements_found =
     keywords_into soup keywords
       (elements_found \<union> set (find_all_class soup keyword) \<union> set (find_all_id soup keyword))"

fun count_content_types ::
  "'e soup \<Rightarrow> (string \<times> string list \<times> string list) list \<Rightarrow> (string \<times> nat) list
   \<Rightarrow> (string \<times> nat) list" where
  "count_content_types soup [] content_types = content_types"
| "count_content_types soup ((content_type, selectors, keywords) # rest) content_types =
     count_content_types soup rest
       (dict_set content_types content_type
          (card (keywords_into soup keywords (select_into soup selectors {}))))"

definition detect_content_types :: "'e soup \<Rightarrow> (string \<times> nat) list" where
  "detect_content_types soup = count_content_types soup patterns []"

subsection \<open>Selectors\<close>

record candidate =
  cand_selector :: string
  cand_count :: nat
  cand_sample_text :: "string option"
  cand_description :: "string option"

definition content_patterns :: "(string \<times> string list) list" where
  "content_patterns =
     [(''products'', [''[class*=\"product\"]'', ''[class*=\"item\"]'', ''[class*=\"card\"]'']),
      (''articles'', [''article'', ''[class*=\"article\"]'', ''[class*=\"post\"]'']),
      (''navigation'', [''nav'', ''[class*=\"menu\"]'', ''[class*=\"nav\"]'']),
      (''forms'', [''form'', ''[class*=\"form\"]'']),
      (''lists'', [''ul'', ''ol'', ''[class*=\"list\"]''])]"

definition common_selectors :: "(string \<times> string) list" where
  "common_selectors =
     [(''all_links'', ''a[href]''),
      (''all_images'', ''img[src]''),
      (''all_forms'', ''form''),
      (''all_inputs'', ''input, textarea, select''),
      (''headings'', ''h1, h2, h3, h4, h5, h6''),
      (''paragraphs'', ''p''),
      (''lists'', ''ul, ol''),
      (''tables'', ''table'')]"

fun type_candidates :: "'e soup \<Rightarrow> string list \<Rightarrow> candidate list \<Rightarrow> candidate list" where
  \<comment> \<open>the loop over the patterns of one content type, appending to \<open>type_selectors\<close>; a
      pattern that matches nothing or raises adds nothing\<close>
  "type_candidates soup [] type_selectors = type_selectors"
| "type_candidates soup (pattern # rest) type_selectors =
     (case select soup pattern of
        Inr elements \<Rightarrow>
          (if elements \<noteq> [] then
             type_candidates soup rest
               (type_selectors @
                  [\<lparr>cand_selector = pattern,
                    cand_count = length elements,
                    cand_sample_text = Some (take 100 (strip (element_text soup (hd elements)))),
                    cand_description = None\<rparr>])
           else type_candidates soup rest type_selectors)
      | Inl e \<Rightarrow> type_candidates soup rest type_selectors)"

fun content_selectors ::
  "'e soup \<Rightarrow> (string \<times> string list) list \<Rightarrow> (string \<times> candidate list) list
   \<Rightarrow> (string \<times> candidate list) list" where
  \<comment> \<open>the loop over the content types; a type is entered only \<open>if type_selectors\<close>\<close>
  "content_selectors soup [] selectors = selectors"
| "content_selectors soup ((content_type, pats) # rest) selectors =
     (let type_selectors = type_candidates soup pats []
      in content_selectors soup rest
           (if type_selectors \<noteq> [] then
              dict_set selectors content_type (sorted_reverse cand_count type_selectors)
            else selectors))"

definition replace_underscores :: "string \<Rightarrow> string" where
  \<comment> \<open>\<open>name.replace("_", " ")\<close>\<close>
  "replace_underscores name = map (\<lambda>c. if c = CHR ''_'' then CHR '' '' else c) name"

fun add_common_selectors ::
  "'e soup \<Rightarrow> (string \<times> string) list \<Rightarrow> (string \<times> candidate list) list
   \<Rightarrow> (string \<times> candidate list) list" where
  \<comment> \<open>the loop over the common selectors; the description is the name with spaces, after
      the Russian word for "all"\<close>
  "add_common_selectors soup [] selectors = selectors"
| "add_common_selectors soup ((name, selector) # rest) selectors =
     (case select soup selector of
        Inr elements \<Rightarrow>
          (if elements \<noteq> [] then
             add_common_selectors soup rest
               (dict_set selectors (''common_'' @ name)
                  [\<lparr>cand_selector = selector,
                    cand_count = length elements,
                    cand_sample_text = None,
                    cand_description = Some (replace_underscores name)\<rparr>])
           else add_common_selectors soup rest selectors)
      | Inl e \<Rightarrow> add_common_selectors soup rest selectors)"

definition generate_selectors ::
  "'e soup \<Rightarrow> (string \<times> nat) list \<Rightarrow> (string \<times> candidate list) list" where
  "generate_selectors soup content_types =
     add_common_selectors soup common_selectors (content_selectors soup content_patterns [])"

subsection \<open>The other analyses of the document\<close>

record basic_info =
  bi_title :: string
  bi_meta_description :: string
  bi_language :: string
  bi_charset :: string

record dom_structure =
  dom_total_elements :: nat
  dom_unique_tags :: "string list"
  dom_tag_distribution :: "(string \<times> nat) list"
  dom_classes_count :: nat
  dom_ids_count :: nat
  dom_popular_classes :: "(string \<times> nat) list"
  dom_max_nesting_depth :: nat
  dom_has_semantic_html5 :: bool
  dom_semantic_tags_found :: "string list"

record input_data =
  in_tag :: string
  in_type :: string
  in_name :: string
  in_placeholder :: string
  in_required :: bool

record form_data =
  fd_action :: string
  fd_method :: string
  fd_inputs_count :: nat
  fd_has_file_upload :: bool
  fd_classes :: "string list"
  fd_id :: string
  fd_inputs :: "input_data list"

record links_forms =
  lf_internal_links :: "string list"
  lf_external_links :: "string list"
  lf_forms :: "form_data list"
  lf_internal_links_count :: nat
  lf_external_links_count :: nat
  lf_forms_count :: nat

record script_info =
  sc_src :: string
  sc_inline :: bool
  sc_type :: string
  sc_async :: bool
  sc_defer :: bool

record style_info =
  st_href :: string
  st_media :: string
  st_type :: string

record scripts_styles =
  ss_scripts :: "script_info list"
  ss_scripts_count :: nat
  ss_external_scripts :: nat
  ss_inline_scripts :: nat
  ss_styles :: "style_info list"
  ss_styles_count :: nat
  ss_inline_styles_count :: nat
  ss_frameworks_detected :: "(string \<times> bool) list"

record performance =
  pf_page_size_bytes :: nat
  pf_images_count :: nat
  pf_scripts_count :: nat
  pf_styles_count :: nat
  pf_external_resources :: nat
  pf_complexity_score :: rat
  pf_loading_complexity :: string

text \<open>
  The analyses of the document that read it through many more queries of the parser are
  taken as given: each returns its dictionary or raises.
\<close>

record 'e steps =
  analyze_basic_info :: "'e soup \<Rightarrow> exn + basic_info"
  analyze_dom_structure :: "'e soup \<Rightarrow> exn + dom_structure"
  analyze_links_and_forms :: "'e soup \<Rightarrow> string \<Rightarrow> exn + links_forms"
  analyze_scripts_and_styles :: "'e soup \<Rightarrow> exn + scripts_styles"
  analyze_performance_indicators :: "'e soup \<Rightarrow> exn + performance"

subsection \<open>The structure report\<close>

datatype complexity_factor =
    Many_javascript_files
  | Frameworks_found "string list"
  | Many_forms
  | High_loading_complexity
  | Deep_dom_nesting

datatype tooling =
    Selenium_or_Playwright_required
  | Selenium_recommended
  | Requests_with_care
  | Simple_requests

datatype effort = Very_high_effort | High_effort | Medium_effort | Low_effort | Unknown_effort

record parsing_complexity =
  pc_score :: int
  pc_level :: string
  pc_factors :: "complexity_factor list"
  pc_recommendation :: tooling
  pc_estimated_effort :: effort

text \<open>
  The dictionary that \<open>StructureAnalyzer.analyze\<close> returns. A field is \<open>None\<close> while its
  keys are absent; the keys that one \<open>results.update\<close> adds together are one field.
\<close>

record structure_report =
  sr_url :: string
  sr_timestamp :: string
  sr_analysis_type :: string
  sr_basic_info :: "basic_info option"
  sr_dom_structure :: "dom_structure option"
  sr_content_types :: "(string \<times> nat) list option"
  sr_links_forms :: "links_forms option"
  sr_scripts :: "script_info list option"
  sr_styles :: "style_info list option"
  sr_frameworks_detected :: "(string \<times> bool) list option"
  sr_suggested_selectors :: "(string \<times> candidate list) list option"
  sr_performance :: "performance option"
  sr_parsing_complexity :: "parsing_complexity option"
  sr_error :: "error option"
  sr_success :: "bool option"

definition evaluate_parsing_complexity :: "structure_report \<Rightarrow> parsing_complexity" where
  "evaluate_parsing_complexity results =
     (let complexity_factors = [];
          score = 0;
          js_count = (case sr_scripts results of Some scripts \<Rightarrow> length scripts | None \<Rightarrow> 0);
          (complexity_factors, score) =
            (if js_count > 10 then (complexity_factors @ [Many_javascript_files], score + 30)
             else if js_count > 5 then (complexity_factors, score + 15)
             else (complexity_factors, score));
          frameworks = (case sr_frameworks_detected results of Some fs \<Rightarrow> fs | None \<Rightarrow> []);
          (complexity_factors, score) =
            (if frameworks \<noteq> [] then
               (complexity_factors @ [Frameworks_found (map fst frameworks)], score + 25)
             else (complexity_factors, score));
          forms_count = (case sr_links_forms results of
                           Some lf \<Rightarrow> lf_forms_count lf | None \<Rightarrow> 0);
          (complexity_factors, score) =
            (if forms_count > 3 then (complexity_factors @ [Many_forms], score + 15)
             else (complexity_factors, score));
          (complexity_factors, score) =
            (if map_option pf_loading_complexity (sr_performance results) = Some ''HIGH'' then
               (complexity_factors @ [High_loading_complexity], score + 20)
             else (complexity_factors, score));
          (complexity_factors, score) =
            (if (case sr_dom_structure results of
                   Some d \<Rightarrow> dom_max_nesting_depth d | None \<Rightarrow> 0) > 15 then
               (complexity_factors @ [Deep_dom_nesting], score + 10)
             else (complexity_factors, score));
          (level, recommendation) =
            (if score \<ge> 70 then (''VERY_HIGH'', Selenium_or_Playwright_required)
             else if score \<ge> 50 then (''HIGH'', Selenium_recommended)
             else if score \<ge> 30 then (''MEDIUM'', Requests_with_care)
             else (''LOW'', Simple_requests))
      in \<lparr>pc_score = score,
          pc_level = level,
          pc_factors = complexity_factors,
          pc_recommendation = recommendation,
          pc_estimated_effort =
            (case map_of [(''VERY_HIGH'', Very_high_effort), (''HIGH'', High_effort),
                          (''MEDIUM'', Medium_effort), (''LOW'', Low_effort)] level of
               Some e \<Rightarrow> e | None \<Rightarrow> Unknown_effort)\<rparr>)"

definition failed :: "structure_report \<Rightarrow> error \<Rightarrow> structure_report" where
  \<comment> \<open>the handler \<open>except Exception as e\<close> of \<open>analyze\<close>: the results so far, with the
      error's text and \<open>success = False\<close>\<close>
  "failed results e = results\<lparr>sr_error := Some e, sr_success := Some False\<rparr>"

definition structure_analyze ::
  "'e steps \<Rightarrow> 'e web \<Rightarrow> string \<Rightarrow> error + structure_report" where
  "structure_analyze steps web url =
     (let results =
            \<lparr>sr_url = url, sr_timestamp = web_strftime web, sr_analysis_type = ''structure'',
             sr_basic_info = None, sr_dom_structure = None, sr_content_types = None,
             sr_links_forms = None, sr_scripts = None, sr_styles = None,
             sr_frameworks_detected = None, sr_suggested_selectors = None,
             sr_performance = None, sr_parsing_complexity = None,
             sr_error = None, sr_success = None\<rparr>
      in case get_page_content web of
           Inl e \<Rightarrow> Inr (failed results e)
         | Inr soup \<Rightarrow>
      (case analyze_basic_info steps soup of
           Inl e \<Rightarrow> Inr (failed results (Raised e))
         | Inr basic_info \<Rightarrow>
      (let results = results\<lparr>sr_basic_info := Some basic_info\<rparr>
       in case analyze_dom_structure steps soup of
           Inl e \<Rightarrow> Inr (failed results (Raised e))
         | Inr dom_structure \<Rightarrow>
      (let results = results\<lparr>sr_dom_structure := Some dom_structure\<rparr>;
           content_types = detect_content_types soup;
           results = results\<lparr>sr_content_types := Some content_types\<rparr>
       in case analyze_links_and_forms steps soup url of
           Inl e \<Rightarrow> Inr (failed results (Raised e))
         | Inr links_forms \<Rightarrow>
      (let results = results\<lparr>sr_links_forms := Some links_forms\<rparr>
       in case analyze_scripts_and_styles steps soup of
           Inl e \<Rightarrow> Inr (failed results (Raised e))
         | Inr scripts_styles \<Rightarrow>
      (let results = results\<lparr>sr_scripts := Some (ss_scripts scripts_styles),
                       sr_styles := Some (ss_styles scripts_styles),
                       sr_frameworks_detected :=
                         Some (ss_frameworks_detected scripts_styles)\<rparr>;
           selectors = generate_selectors soup content_types;
           results = results\<lparr>sr_suggested_selectors := Some selectors\<rparr>
       in case analyze_performance_indicators steps soup of
           Inl e \<Rightarrow> Inr (failed results (Raised e))
         | Inr performance \<Rightarrow>
      (let results = results\<lparr>sr_performance := Some performance\<rparr>;
           parsing_complexity = evaluate_parsing_complexity results;
           results = results\<lparr>sr_parsing_complexity := Some parsing_complexity\<rparr>
       in Inr results)))))))"

section \<open>URL validation (\<open>utils.py\<close>)\<close>

datatype pyobj = Str string | NotStr
  \<comment> \<open>an argument of a Python function: a string, or any object that is not a string\<close>

record parse_result =
  pu_scheme :: string
  pu_netloc :: string

definition alnum :: "char \<Rightarrow> bool" where
  \<comment> \<open>the character class \<open>[a-zA-Z0-9]\<close>\<close>
  "alnum c = (c \<in> set ''abcdefghijklmnopqrstuvwxyzABCDEFGHIJKLMNOPQRSTUVWXYZ0123456789'')"

definition label_ok :: "string \<Rightarrow> bool" where
  \<comment> \<open>\<open>[a-zA-Z0-9]([a-zA-Z0-9\-]{0,61}[a-zA-Z0-9])?\<close>\<close>
  "label_ok l =
     (l \<noteq> [] \<and> length l \<le> 63 \<and> alnum (hd l) \<and> alnum (last l)
      \<and> list_all (\<lambda>c. alnum c \<or> c = CHR ''-'') l)"

definition domain_pattern_match :: "string \<Rightarrow> bool" where
  \<comment> \<open>\<open>domain_pattern.match(s)\<close>: labels separated by dots, from the start of the string
      to its end, where \<open>$\<close> also matches before a final newline\<close>
  "domain_pattern_match s =
     (let s' = (if s \<noteq> [] \<and> last s = CHR 0x0A then butlast s else s)
      in list_all label_ok (split_on CHR ''.'' s'))"

definition validate_url :: "(string \<Rightarrow> exn + parse_result) \<Rightarrow> pyobj \<Rightarrow> error + string" where
  \<comment> \<open>\<open>urlparse\<close> is the library's parser, which may raise; every exception of the \<open>try\<close>
      block, the three \<open>ValueError\<close>s raised in it included, is raised again as a
      \<open>ValueError\<close> that carries its text\<close>
  "validate_url urlparse url =
     (case url of
        NotStr \<Rightarrow> Inl (ValueError Url_empty)
      | Str s \<Rightarrow>
          if s = [] then Inl (ValueError Url_empty)
          else
            (let url = strip s;
                 url = (if \<not> (startswith url ''http://'' \<or> startswith url ''https://'')
                        then ''https://'' @ url else url)
             in case urlparse url of
                  Inl e \<Rightarrow> Inl (ValueError (Url_validation (Urlparse_failed e)))
                | Inr parsed \<Rightarrow>
                    if pu_netloc parsed = [] then
                      Inl (ValueError (Url_validation Missing_domain))
                    else if pu_scheme parsed \<notin> set [''http'', ''https''] then
                      Inl (ValueError (Url_validation Unsupported_scheme))
                    else if \<not> domain_pattern_match (hd (split_on CHR '':'' (pu_netloc parsed))) then
                      Inl (ValueError (Url_validation Bad_domain_format))
                    else Inr url))"

section \<open>The comprehensive analyzer (\<open>comprehensive_analyzer.py\<close>, \<open>languages.py\<close>)\<close>

subsection \<open>Languages\<close>

text \<open>The two translation tables are taken as given.\<close>

record language_manager =
  current_language :: string
  RUSSIAN_TRANSLATIONS :: "string \<Rightarrow> string option"
  ENGLISH_TRANSLATIONS :: "string \<Rightarrow> string option"

definition translation_tables :: "language_manager \<Rightarrow> (string \<times> (string \<Rightarrow> string option)) list" where
  "translation_tables lm = [(''ru'', RUSSIAN_TRANSLATIONS lm), (''en'', ENGLISH_TRANSLATIONS lm)]"

definition set_language :: "language_manager \<Rightarrow> string \<Rightarrow> language_manager" where
  "set_language lm language =
     (if language \<in> set (map fst (translation_tables lm)) then lm\<lparr>current_language := language\<rparr>
      else lm)"

definition get_text :: "language_manager \<Rightarrow> string \<Rightarrow> string" where
  \<comment> \<open>\<open>get_text(key)\<close> without format arguments; any exception gives the key back\<close>
  "get_text lm key =
     (case map_of (translation_tables lm) (current_language lm) of
        None \<Rightarrow> key
      | Some table \<Rightarrow> (case table key of Some text \<Rightarrow> text | None \<Rightarrow> key))"

subsection \<open>Reports as dictionaries\<close>

text \<open>
  The comprehensive analyzer reads the reports of the two analyzers as dictionaries, with
  \<open>get\<close> and a default. \<open>PyObject\<close> is a value that it never looks into.
\<close>

datatype pyval =
    PyNone
  | PyBool bool
  | PyInt int
  | PyFloat rat
  | PyStr string
  | PyList "pyval list"
  | PyDict "(string \<times> pyval) list"
  | PyObject

fun truthy :: "pyval \<Rightarrow> bool" where
  "truthy PyNone = False"
| "truthy (PyBool b) = b"
| "truthy (PyInt n) = (n \<noteq> 0)"
| "truthy (PyFloat x) = (x \<noteq> 0)"
| "truthy (PyStr s) = (s \<noteq> [])"
| "truthy (PyList xs) = (xs \<noteq> [])"
| "truthy (PyDict d) = (d \<noteq> [])"
| "truthy PyObject = True"

definition py_get :: "(string \<times> pyval) list \<Rightarrow> string \<Rightarrow> pyval \<Rightarrow> pyval" where
  \<comment> \<open>\<open>d.get(key, default)\<close> on a dictionary\<close>
  "py_get d key dflt = (case map_of d key of Some v \<Rightarrow> v | None \<Rightarrow> dflt)"

fun py_value_get :: "pyval \<Rightarrow> string \<Rightarrow> pyval \<Rightarrow> error + pyval" where
  \<comment> \<open>\<open>v.get(key, default)\<close> on a value, which has to be a dictionary\<close>
  "py_value_get (PyDict d) key dflt = Inr (py_get d key dflt)"
| "py_value_get v key dflt = Inl AttributeError"

fun py_items :: "pyval \<Rightarrow> error + (string \<times> pyval) list" where
  \<comment> \<open>\<open>v.items()\<close>\<close>
  "py_items (PyDict d) = Inr d"
| "py_items v = Inl AttributeError"

fun py_len :: "pyval \<Rightarrow> error + nat" where
  "py_len (PyStr s) = Inr (length s)"
| "py_len (PyList xs) = Inr (length xs)"
| "py_len (PyDict d) = Inr (length d)"
| "py_len v = Inl TypeError"

fun py_less :: "pyval \<Rightarrow> int \<Rightarrow> error + bool" where
  \<comment> \<open>\<open>v < n\<close> for an integer literal \<open>n\<close>\<close>
  "py_less (PyInt m) n = Inr (m < n)"
| "py_less (PyBool b) n = Inr ((if b then 1 else 0) < n)"
| "py_less (PyFloat x) n = Inr (x < of_int n)"
| "py_less v n = Inl TypeError"

fun sum_lens :: "pyval list \<Rightarrow> error + nat" where
  \<comment> \<open>\<open>sum([len(v) for v in values])\<close>\<close>
  "sum_lens [] = Inr 0"
| "sum_lens (v # vs) =
     (case py_len v of
        Inl e \<Rightarrow> Inl e
      | Inr n \<Rightarrow> (case sum_lens vs of Inl e \<Rightarrow> Inl e | Inr m \<Rightarrow> Inr (n + m)))"

record translated_protection =
  tp_results :: protection_report
  tp_complexity_level_localized :: string
  tp_bypass_methods_localized :: "string list"
  tp_protection_details_localized :: "(string \<times> pyval) list"

definition translate_protection_results ::
  "language_manager \<Rightarrow> protection_report \<Rightarrow> translated_protection" where
  \<comment> \<open>a copy of the report with three more keys. The report always has the keys
      \<open>complexity_level\<close> and \<open>bypass_methods\<close> and never the key \<open>protection_details\<close>,
      whose translation is therefore empty.\<close>
  "translate_protection_results lm results =
     (let level_map = [(''LOW'', get_text lm ''protection_low''),
                       (''MEDIUM'', get_text lm ''protection_medium''),
                       (''HIGH'', get_text lm ''protection_high''),
                       (''CRITICAL'', get_text lm ''protection_critical'')];
          bypass_map = [(''requests'', get_text lm ''bypass_requests''),
                        (''cloudscraper'', get_text lm ''bypass_cloudscraper''),
                        (''selenium'', get_text lm ''bypass_selenium''),
                        (''undetected'', get_text lm ''bypass_undetected''),
                        (''proxy'', get_text lm ''bypass_proxy'')]
      in \<lparr>tp_results = results,
          tp_complexity_level_localized =
            (case map_of level_map (complexity_level results) of
               Some localized \<Rightarrow> localized | None \<Rightarrow> complexity_level results),
          tp_bypass_methods_localized =
            map (\<lambda>method. case map_of bypass_map method of
                            Some localized \<Rightarrow> localized | None \<Rightarrow> method)
              (map fst (bypass_methods results)),
          tp_protection_details_localized = []\<rparr>)"

definition protection_view :: "translated_protection \<Rightarrow> (string \<times> pyval) list" where
  \<comment> \<open>the translated protection report as the dictionary that it is, key by key\<close>
  "protection_view p =
     (let r = tp_results p in
      [(''url'', PyStr (pr_url r)),
       (''timestamp'', PyStr (pr_timestamp r)),
       (''mechanisms'',
          PyDict (map (\<lambda>(name, f). (name,
                    PyDict [(''detected'', PyBool (detected f)), (''score'', PyInt (score f)),
                            (''description'', PyObject)])) (mechanisms r))),
       (''bypass_methods'', PyDict (map (\<lambda>(name, b). (name, PyObject)) (bypass_methods r))),
       (''total_score'', PyInt (total_score r)),
       (''complexity_level'', PyStr (complexity_level r))]
      @ (case best_method r of Some m \<Rightarrow> [(''best_method'', PyStr m)] | None \<Rightarrow> [])
      @ (case bypass_success_rate r of
           Some x \<Rightarrow> [(''bypass_success_rate'', PyFloat x)] | None \<Rightarrow> [])
      @ [(''complexity_level_localized'', PyStr (tp_complexity_level_localized p)),
         (''bypass_methods_localized'', PyList (map PyStr (tp_bypass_methods_localized p))),
         (''protection_details_localized'', PyDict (tp_protection_details_localized p))])"

record translated_structure =
  ts_results :: structure_report
  ts_content_types_localized :: "(string \<times> nat) list option"
  ts_suggested_selectors_localized :: "(string \<times> candidate list) list option"

fun localize_keys ::
  "(string \<times> string) list \<Rightarrow> (string \<times> 'v) list \<Rightarrow> (string \<times> 'v) list \<Rightarrow> (string \<times> 'v) list" where
  \<comment> \<open>the loop \<open>for key, value in d.items(): localized[name_map.get(key, key)] = value\<close>\<close>
  "localize_keys name_map [] localized = localized"
| "localize_keys name_map ((key, v) # rest) localized =
     localize_keys name_map rest
       (dict_set localized (case map_of name_map key of Some l \<Rightarrow> l | None \<Rightarrow> key) v)"

definition translate_structure_results ::
  "language_manager \<Rightarrow> structure_report \<Rightarrow> translated_structure" where
  \<comment> \<open>a copy of the report with a translation of the keys \<open>content_types\<close> and
      \<open>suggested_selectors\<close> where the report has them; the report never has the key
      \<open>dom_stats\<close>, so \<open>dom_stats_localized\<close> is never set\<close>
  "translate_structure_results lm results =
     (let content_map = [(''products'', get_text lm ''products_detected''),
                         (''articles'', get_text lm ''articles_detected''),
                         (''navigation'', get_text lm ''navigation_detected''),
                         (''forms'', get_text lm ''forms_detected''),
                         (''pagination'', get_text lm ''pagination_detected'')];
          selector_map = [(''products'', get_text lm ''selector_products''),
                          (''prices'', get_text lm ''selector_prices''),
                          (''titles'', get_text lm ''selector_titles''),
                          (''descriptions'', get_text lm ''selector_descriptions''),
                          (''links'', get_text lm ''selector_links''),
                          (''images'', get_text lm ''selector_images'')]
      in \<lparr>ts_results = results,
          ts_content_types_localized =
            map_option (\<lambda>content_types. localize_keys content_map content_types [])
              (sr_content_types results),
          ts_suggested_selectors_localized =
            map_option (\<lambda>selectors. localize_keys selector_map selectors [])
              (sr_suggested_selectors results)\<rparr>)"

definition counts_view :: "(string \<times> nat) list \<Rightarrow> pyval" where
  "counts_view d = PyDict (map (\<lambda>(k, n). (k, PyInt (int n))) d)"

definition selectors_view :: "(string \<times> candidate list) list \<Rightarrow> pyval" where
  "selectors_view d = PyDict (map (\<lambda>(k, cs). (k, PyList (map (\<lambda>c. PyObject) cs))) d)"

definition structure_view :: "translated_structure \<Rightarrow> (string \<times> pyval) list" where
  \<comment> \<open>the translated structure report as the dictionary that it is, key by key\<close>
  "structure_view s =
     (let r = ts_results s in
      [(''url'', PyStr (sr_url r)),
       (''timestamp'', PyStr (sr_timestamp r)),
       (''analysis_type'', PyStr (sr_analysis_type r))]
      @ (case sr_basic_info r of
           Some b \<Rightarrow> [(''title'', PyStr (bi_title b)),
                      (''meta_description'', PyStr (bi_meta_description b)),
                      (''language'', PyStr (bi_language b)),
                      (''charset'', PyStr (bi_charset b))]
         | None \<Rightarrow> [])
      @ (case sr_dom_structure r of
           Some d \<Rightarrow> [(''total_elements'', PyInt (int (dom_total_elements d))),
                      (''unique_tags'', PyList (map PyStr (dom_unique_tags d))),
                      (''tag_distribution'', counts_view (dom_tag_distribution d)),
                      (''classes_count'', PyInt (int (dom_classes_count d))),
                      (''ids_count'', PyInt (int (dom_ids_count d))),
                      (''popular_classes'', counts_view (dom_popular_classes d)),
                      (''max_nesting_depth'', PyInt (int (dom_max_nesting_depth d))),
                      (''has_semantic_html5'', PyBool (dom_has_semantic_html5 d)),
                      (''semantic_tags_found'', PyList (map PyStr (dom_semantic_tags_found d)))]
         | None \<Rightarrow> [])
      @ (case sr_content_types r of
           Some c \<Rightarrow> [(''content_types'', counts_view c)] | None \<Rightarrow> [])
      @ (case sr_links_forms r of
           Some l \<Rightarrow> [(''internal_links'', PyList (map PyStr (lf_internal_links l))),
                      (''external_links'', PyList (map PyStr (lf_external_links l))),
                      (''forms'', PyList (map (\<lambda>f. PyObject) (lf_forms l))),
                      (''internal_links_count'', PyInt (int (lf_internal_links_count l))),
                      (''external_links_count'', PyInt (int (lf_external_links_count l))),
                      (''forms_count'', PyInt (int (lf_forms_count l)))]
         | None \<Rightarrow> [])
      @ (case sr_scripts r of
           Some xs \<Rightarrow> [(''scripts'', PyList (map (\<lambda>x. PyObject) xs))] | None \<Rightarrow> [])
      @ (case sr_styles r of
           Some xs \<Rightarrow> [(''styles'', PyList (map (\<lambda>x. PyObject) xs))] | None \<Rightarrow> [])
      @ (case sr_frameworks_detected r of
           Some fs \<Rightarrow> [(''frameworks_detected'', PyDict (map (\<lambda>(k, v). (k, PyBool v)) fs))]
         | None \<Rightarrow> [])
      @ (case sr_suggested_selectors r of
           Some d \<Rightarrow> [(''suggested_selectors'', selectors_view d)] | None \<Rightarrow> [])
      @ (case sr_performance r of Some p \<Rightarrow> [(''performance'', PyObject)] | None \<Rightarrow> [])
      @ (case sr_parsing_complexity r of
           Some p \<Rightarrow> [(''parsing_complexity'', PyObject)] | None \<Rightarrow> [])
      @ (case sr_error r of Some e \<Rightarrow> [(''error'', PyObject)] | None \<Rightarrow> [])
      @ (case sr_success r of Some b \<Rightarrow> [(''success'', PyBool b)] | None \<Rightarrow> [])
      @ (case ts_content_types_localized s of
           Some c \<Rightarrow> [(''content_types_localized'', counts_view c)] | None \<Rightarrow> [])
      @ (case ts_suggested_selectors_localized s of
           Some d \<Rightarrow> [(''suggested_selectors_localized'', selectors_view d)] | None \<Rightarrow> []))"

subsection \<open>Recommendations and summary\<close>

datatype lang = Russian | English

datatype advice =
    Simple_scraping
  | Add_user_agent_headers
  | Medium_complexity
  | Add_delays
  | High_complexity
  | Rotate_proxies_and_user_agents
  | Critical_protection
  | Consider_captcha_services
  | Significant_delays_and_manual_processing
  | Products_detected
  | Pagination_found

datatype development_time = Days_1_2 | Days_3_5 | Weeks_1_2 | Weeks_2_or_more

record summary =
  sm_url :: string
  sm_analysis_time :: string
  sm_language :: string
  sm_protection_level :: "pyval option"
  sm_protection_score :: "pyval option"
  sm_protection_level_localized :: "pyval option"
  sm_dom_elements :: "pyval option"
  sm_content_types_found :: "nat option"
  sm_selectors_generated :: "nat option"
  sm_scraping_difficulty :: string
  sm_estimated_development_time :: "lang \<times> development_time"

record website_results =
  wr_url :: pyobj
  wr_analysis_type :: string
  wr_language :: string
  wr_timestamp :: string
  wr_version :: string
  wr_protection :: "translated_protection option"
  wr_structure :: "translated_structure option"
  wr_recommendations :: "(lang \<times> advice) list option"
  wr_summary :: "summary option"

definition protection_advice :: "lang \<Rightarrow> pyval \<Rightarrow> error + (lang \<times> advice) list" where
  \<comment> \<open>the chain \<open>if complexity_score < 40 ... elif ... < 60 ... elif ... < 80 ... else\<close> of
      \<open>_generate_recommendations\<close>; each message exists in the two languages\<close>
  "protection_advice l complexity_score =
     (case py_less complexity_score 40 of
        Inl e \<Rightarrow> Inl e
      | Inr True \<Rightarrow> Inr [(l, Simple_scraping), (l, Add_user_agent_headers)]
      | Inr False \<Rightarrow>
     (case py_less complexity_score 60 of
        Inl e \<Rightarrow> Inl e
      | Inr True \<Rightarrow> Inr [(l, Medium_complexity), (l, Add_delays)]
      | Inr False \<Rightarrow>
     (case py_less complexity_score 80 of
        Inl e \<Rightarrow> Inl e
      | Inr True \<Rightarrow> Inr [(l, High_complexity), (l, Rotate_proxies_and_user_agents)]
      | Inr False \<Rightarrow>
          Inr [(l, Critical_protection), (l, Consider_captcha_services),
               (l, Significant_delays_and_manual_processing)])))"

definition generate_recommendations ::
  "language_manager \<Rightarrow> website_results \<Rightarrow> error + (lang \<times> advice) list" where
  "generate_recommendations lm results =
     (let l = (if current_language lm = ''ru'' then Russian else English);
          recommendations = []
      in case (case wr_protection results of
                 None \<Rightarrow> Inr recommendations
               | Some protection \<Rightarrow>
                   (let complexity_score =
                          py_get (protection_view protection) ''complexity_score'' (PyInt 0)
                    in case protection_advice l complexity_score of
                         Inl e \<Rightarrow> Inl e
                       | Inr advice \<Rightarrow> Inr (recommendations @ advice))) of
           Inl e \<Rightarrow> Inl e
         | Inr recommendations \<Rightarrow>
             (case wr_structure results of
                None \<Rightarrow> Inr recommendations
              | Some structure \<Rightarrow>
                  (case py_value_get
                          (py_get (structure_view structure) ''content_types'' (PyDict []))
                          ''products'' PyNone of
                     Inl e \<Rightarrow> Inl e
                   | Inr products \<Rightarrow>
                  (let recommendations =
                         (if truthy products then recommendations @ [(l, Products_detected)]
                          else recommendations)
                   in case py_value_get
                          (py_get (structure_view structure) ''content_types'' (PyDict []))
                          ''pagination'' PyNone of
                        Inl e \<Rightarrow> Inl e
                      | Inr pagination \<Rightarrow>
                          Inr (if truthy pagination
                               then recommendations @ [(l, Pagination_found)]
                               else recommendations)))))"

definition summarize_structure :: "summary \<Rightarrow> translated_structure \<Rightarrow> error + summary" where
  \<comment> \<open>the block \<open>if 'structure' in results\<close> of \<open>_generate_summary\<close>\<close>
  "summarize_structure summary structure =
     (case py_value_get (py_get (structure_view structure) ''dom_stats'' (PyDict []))
             ''total_elements'' (PyInt 0) of
        Inl e \<Rightarrow> Inl e
      | Inr dom_elements \<Rightarrow>
     (case py_items (py_get (structure_view structure) ''content_types'' (PyDict [])) of
        Inl e \<Rightarrow> Inl e
      | Inr content_types \<Rightarrow>
     (case py_items (py_get (structure_view structure) ''suggested_selectors'' (PyDict [])) of
        Inl e \<Rightarrow> Inl e
      | Inr selectors \<Rightarrow>
     (case sum_lens (map snd selectors) of
        Inl e \<Rightarrow> Inl e
      | Inr selectors_generated \<Rightarrow>
          Inr (summary\<lparr>sm_dom_elements := Some dom_elements,
                 sm_content_types_found :=
                   Some (length (filter (\<lambda>(k, v). truthy v) content_types)),
                 sm_selectors_generated := Some selectors_generated\<rparr>)))))"

definition rate_difficulty ::
  "language_manager \<Rightarrow> lang \<Rightarrow> pyval \<Rightarrow> summary \<Rightarrow> error + summary" where
  \<comment> \<open>the chain \<open>if complexity_score < 40 ... elif ... < 60 ... elif ... < 80 ... else\<close> of
      \<open>_generate_summary\<close>\<close>
  "rate_difficulty lm l complexity_score summary =
     (case py_less complexity_score 40 of
        Inl e \<Rightarrow> Inl e
      | Inr True \<Rightarrow>
          Inr (summary\<lparr>sm_scraping_difficulty := get_text lm ''protection_low'',
                 sm_estimated_development_time := (l, Days_1_2)\<rparr>)
      | Inr False \<Rightarrow>
     (case py_less complexity_score 60 of
        Inl e \<Rightarrow> Inl e
      | Inr True \<Rightarrow>
          Inr (summary\<lparr>sm_scraping_difficulty := get_text lm ''protection_medium'',
                 sm_estimated_development_time := (l, Days_3_5)\<rparr>)
      | Inr False \<Rightarrow>
     (case py_less complexity_score 80 of
        Inl e \<Rightarrow> Inl e
      | Inr True \<Rightarrow>
          Inr (summary\<lparr>sm_scraping_difficulty := get_text lm ''protection_high'',
                 sm_estimated_development_time := (l, Weeks_1_2)\<rparr>)
      | Inr False \<Rightarrow>
          Inr (summary\<lparr>sm_scraping_difficulty := get_text lm ''protection_critical'',
                 sm_estimated_development_time := (l, Weeks_2_or_more)\<rparr>))))"

definition generate_summary ::
  "language_manager \<Rightarrow> string \<Rightarrow> website_results \<Rightarrow> error + summary" where
  \<comment> \<open>\<open>now\<close> is the time of the call\<close>
  "generate_summary lm now results =
     (let l = (if current_language lm = ''ru'' then Russian else English);
          summary =
            \<lparr>sm_url = (case wr_url results of Str s \<Rightarrow> s | NotStr \<Rightarrow> []),
             sm_analysis_time = now,
             sm_language = current_language lm,
             sm_protection_level = None, sm_protection_score = None,
             sm_protection_level_localized = None, sm_dom_elements = None,
             sm_content_types_found = None, sm_selectors_generated = None,
             sm_scraping_difficulty = [],
             sm_estimated_development_time = (l, Days_1_2)\<rparr>;
          summary =
            (case wr_protection results of
               None \<Rightarrow> summary
             | Some protection \<Rightarrow>
                 summary\<lparr>sm_protection_level :=
                     Some (py_get (protection_view protection) ''complexity_level''
                             (PyStr ''UNKNOWN'')),
                   sm_protection_score :=
                     Some (py_get (protection_view protection) ''complexity_score'' (PyInt 0)),
                   sm_protection_level_localized :=
                     Some (py_get (protection_view protection) ''complexity_level_localized''
                             (PyStr ''UNKNOWN''))\<rparr>);
          complexity_score =
            py_get (case wr_protection results of
                      Some protection \<Rightarrow> protection_view protection | None \<Rightarrow> [])
              ''complexity_score'' (PyInt 0)
      in case (case wr_structure results of
                 None \<Rightarrow> Inr summary
               | Some structure \<Rightarrow> summarize_structure summary structure) of
           Inl e \<Rightarrow> Inl e
         | Inr summary \<Rightarrow> rate_difficulty lm l complexity_score summary)"

subsection \<open>The analysis of a website\<close>

record app =
  app_language_manager :: language_manager
  app_protection_analyzer :: analyzer
  app_analysis_count :: nat

definition analyze_website ::
  "capabilities \<Rightarrow> world \<Rightarrow> 'e steps \<Rightarrow> 'e web \<Rightarrow> (string \<Rightarrow> exn + parse_result) \<Rightarrow> string
   \<Rightarrow> app \<Rightarrow> pyobj \<Rightarrow> string \<Rightarrow> string option \<Rightarrow> error + (website_results \<times> app)" where
  \<comment> \<open>\<open>caps\<close>, \<open>w\<close>, \<open>steps\<close>, \<open>web\<close>, \<open>urlparse\<close> and the time \<open>now\<close> are the surroundings
      of the call; \<open>url\<close>, \<open>analysis_type\<close> and \<open>language\<close> are its arguments. The analyzers
      receive the URL as it was passed, not the validated one.\<close>
  "analyze_website caps w steps web urlparse now app url analysis_type language =
     (let lm = (case language of
                  None \<Rightarrow> app_language_manager app
                | Some l \<Rightarrow> if l \<noteq> [] then set_language (app_language_manager app) l
                            else app_language_manager app);
          app = app\<lparr>app_language_manager := lm\<rparr>
      in case validate_url urlparse url of
           Inl e \<Rightarrow> Inl e
         | Inr valid \<Rightarrow>
             if valid = [] then Inl (ValueError Invalid_url_text)
             else
               (let results =
                      \<lparr>wr_url = url, wr_analysis_type = analysis_type,
                       wr_language = current_language lm, wr_timestamp = now,
                       wr_version = ''3.1.0'', wr_protection = None, wr_structure = None,
                        wr_recommendations = None, wr_summary = None\<rparr>;
                    address = (case url of Str s \<Rightarrow> s | NotStr \<Rightarrow> [])
                in case (if analysis_type \<in> set [''protection'', ''both''] then
                           (case protection_analyze caps w address (app_protection_analyzer app) of
                              Inl e \<Rightarrow> Inl e
                            | Inr (protection_results, a) \<Rightarrow>
                                Inr (results\<lparr>wr_protection :=
                                       Some (translate_protection_results lm protection_results)\<rparr>,
                                     app\<lparr>app_protection_analyzer := a\<rparr>))
                         else Inr (results, app)) of
                     Inl e \<Rightarrow> Inl (AnalysisError e)
                   | Inr (results, app) \<Rightarrow>
                (case (if analysis_type \<in> set [''structure'', ''both''] then
                           (case structure_analyze steps web address of
                              Inl e \<Rightarrow> Inl e
                            | Inr structure_results \<Rightarrow>
                                Inr (results\<lparr>wr_structure :=
                                       Some (translate_structure_results lm structure_results)\<rparr>))
                         else Inr results) of
                     Inl e \<Rightarrow> Inl (AnalysisError e)
                   | Inr results \<Rightarrow>
                (case generate_recommendations lm results of
                     Inl e \<Rightarrow> Inl (AnalysisError e)
                   | Inr recommendations \<Rightarrow>
                (let results = results\<lparr>wr_recommendations := Some recommendations\<rparr>
                 in case generate_summary lm now results of
                     Inl e \<Rightarrow> Inl (AnalysisError e)
                   | Inr summary \<Rightarrow>
                       Inr (results\<lparr>wr_summary := Some summary\<rparr>,
                            app\<lparr>app_analysis_count := app_analysis_count app + 1\<rparr>))))))"

section \<open>Example sites\<close>

definition no_capabilities :: capabilities where
  "no_capabilities =
     \<lparr>UA_AVAILABLE = False, CLOUDSCRAPER_AVAILABLE = False, SELENIUM_AVAILABLE = False\<rparr>"

definition fresh_analyzer :: analyzer where
  "fresh_analyzer = \<lparr>driver = False, requests_made = 0, chrome_starts = 0, page_loads = 0\<rparr>"

definition plain_response :: response where
  "plain_response =
     \<lparr>resp_status_code = 200, resp_content_length = 13, resp_text = ''<html></html>'',
      resp_headers = [], resp_cookies = 0, resp_elapsed = 1 / 10\<rparr>"

definition plain_site :: world where
  \<comment> \<open>a site that answers every request with the same small page\<close>
  "plain_site =
     \<lparr>http_get = (\<lambda>n. Inr plain_response),
      chrome_start = (\<lambda>n. None),
      page_source = (\<lambda>n. Inr ''<html></html>''),
      sequence_ratio = (\<lambda>a b. 1),
      rate_limit_total_time = 2,
      strftime = ''2025-09-14 12:00:00''\<rparr>"

definition unreachable_site :: world where
  \<comment> \<open>a host name that does not resolve: every request raises\<close>
  "unreachable_site = plain_site\<lparr>http_get := (\<lambda>n. Inl ''Name or service not known'')\<rparr>"

definition unavailable_site :: world where
  \<comment> \<open>a site that answers every request with status 503\<close>
  "unavailable_site =
     plain_site\<lparr>http_get := (\<lambda>n. Inr (plain_response\<lparr>resp_status_code := 503\<rparr>))\<rparr>"

definition flaky_site :: world where
  \<comment> \<open>a site that answers the first request and then refuses every connection\<close>
  "flaky_site =
     plain_site\<lparr>http_get := (\<lambda>n. if n = 0 then Inr plain_response
                                else Inl ''Connection refused'')\<rparr>"

definition waiting_page :: string where
  "waiting_page = ''<html><body>Loading... Please wait, JavaScript is required</body></html>''"

definition js_gated_site :: world where
  \<comment> \<open>a site that answers every request with a page asking for JavaScript\<close>
  "js_gated_site =
     plain_site\<lparr>http_get := (\<lambda>n. Inr (plain_response\<lparr>resp_text := waiting_page\<rparr>))\<rparr>"

definition offline_web :: "nat web" where
  \<comment> \<open>the request for the page raises\<close>
  "offline_web = \<lparr>page_get = Inl ''Connection refused'', web_strftime = ''2025-09-14 12:00:00''\<rparr>"

definition no_steps :: "nat steps" where
  \<comment> \<open>analysis steps for a run that never reaches them\<close>
  "no_steps =
     \<lparr>analyze_basic_info = (\<lambda>soup. Inl ''not reached''),
      analyze_dom_structure = (\<lambda>soup. Inl ''not reached''),
      analyze_links_and_forms = (\<lambda>soup url. Inl ''not reached''),
      analyze_scripts_and_styles = (\<lambda>soup. Inl ''not reached''),
      analyze_performance_indicators = (\<lambda>soup. Inl ''not reached'')\<rparr>"

definition empty_soup :: "nat soup" where
  \<comment> \<open>a document without elements\<close>
  "empty_soup =
     \<lparr>select = (\<lambda>selector. Inr []), find_all_class = (\<lambda>keyword. []),
      find_all_id = (\<lambda>keyword. []), element_text = (\<lambda>e. [])\<rparr>"

definition blog_soup :: "nat soup" where
  \<comment> \<open>a document of two \<open>article\<close> elements 1 and 2 with the class "article-box", a
      \<open>div\<close> 3 with the class "articles" and two \<open>div\<close> elements 4 and 5 with the class
      "post"; every element has the text "News"; the parser rejects one selector\<close>
  "blog_soup =
     \<lparr>select = (\<lambda>selector.
        if selector = ''article'' then Inr [1, 2]
        else if selector = ''[class*=\"article\"]'' then Inr [1, 2, 3]
        else if selector = ''[class*=\"post\"]'' then Inr [4, 5]
        else if selector = ''div'' then Inr [3, 4, 5]
        else if selector = ''[class*=\"news\"]'' then Inl ''Malformed selector''
        else Inr []),
      find_all_class = (\<lambda>keyword.
        if keyword = ''article'' then [1, 2, 3] else if keyword = ''post'' then [4, 5] else []),
      find_all_id = (\<lambda>keyword. []),
      element_text = (\<lambda>e. '' News '')\<rparr>"

definition example_urlparse :: "string \<Rightarrow> exn + parse_result" where
  \<comment> \<open>what \<open>urlparse\<close> answers for the two URLs of the examples\<close>
  "example_urlparse url =
     (if url = ''http://example.com'' then
        Inr \<lparr>pu_scheme = ''http'', pu_netloc = ''example.com''\<rparr>
      else if url = ''https://example.com'' then
        Inr \<lparr>pu_scheme = ''https'', pu_netloc = ''example.com''\<rparr>
      else Inl ''not an example'')"

definition english_manager :: language_manager where
  "english_manager =
     \<lparr>current_language = ''en'',
      RUSSIAN_TRANSLATIONS = (\<lambda>key. None),
      ENGLISH_TRANSLATIONS =
        map_of [(''protection_low'', ''LOW''), (''protection_medium'', ''MEDIUM''),
                (''protection_high'', ''HIGH''), (''protection_critical'', ''CRITICAL'')]\<rparr>"

definition fresh_app :: app where
  "fresh_app =
     \<lparr>app_language_manager = english_manager, app_protection_analyzer = fresh_analyzer,
      app_analysis_count = 0\<rparr>"

section \<open>Properties of the protection analyzer\<close>

lemma ua_requests_state:
  "snd (ua_requests w uas a) = a\<lparr>requests_made := requests_made a + length uas\<rparr>"
  by (induction uas arbitrary: a) (simp_all add: session_get_def case_prod_beta Let_def)

lemma rl_requests_state:
  "snd (rl_requests w ns a) = a\<lparr>requests_made := requests_made a + length ns\<rparr>"
  by (induction ns arbitrary: a) (simp_all add: session_get_def case_prod_beta Let_def)

lemma check_basic_access_state:
  "snd (check_basic_access w a) = a\<lparr>requests_made := Suc (requests_made a)\<rparr>"
  by (simp add: check_basic_access_def session_get_def)

lemma score_and_rank_fields:
  "mechanisms (score_and_rank r) = mechanisms r"
  "pr_url (score_and_rank r) = pr_url r"
  "pr_timestamp (score_and_rank r) = pr_timestamp r"
  "bypass_methods (score_and_rank r) = bypass_methods r"
  "total_score (score_and_rank r) =
     sum_list (map (\<lambda>mechanism. score mechanism) (map snd (mechanisms r)))"
  by (simp_all add: score_and_rank_def Let_def)

lemma score_and_rank_level:
  "complexity_level (score_and_rank r) =
     (if total_score (score_and_rank r) \<ge> 80 then ''CRITICAL''
      else if total_score (score_and_rank r) \<ge> 60 then ''HIGH''
      else if total_score (score_and_rank r) \<ge> 40 then ''MEDIUM'' else ''LOW'')"
  by (simp add: score_and_rank_def Let_def)

lemma analyze_inaccessible:
  assumes "\<not> ba_accessible (fst (check_basic_access w a))"
  shows "protection_analyze caps w url a =
     Inr (\<lparr>pr_url = url, pr_timestamp = strftime w,
           mechanisms = [(''basic_access'',
              \<lparr>detected = False, score = 0,
               description = Status_size (ba_status_code (fst (check_basic_access w a)))
                               (ba_content_length (fst (check_basic_access w a)))\<rparr>)],
           bypass_methods = [], total_score = 100, complexity_level = ''CRITICAL'',
           best_method = None, bypass_success_rate = None\<rparr>,
          a\<lparr>requests_made := Suc (requests_made a)\<rparr>)"
  using assms check_basic_access_state [of w a]
  by (simp add: protection_analyze_def set_mechanism_def Let_def case_prod_beta)

lemma analyze_rate_limit_error:
  assumes "ba_accessible (fst (check_basic_access w a))"
    and "check_rate_limiting w
           (snd (check_user_agent_protection w (snd (check_basic_access w a)))) = Inl e"
  shows "protection_analyze caps w url a = Inl e"
  using assms by (simp add: protection_analyze_def Let_def case_prod_beta)

lemma check_rate_limiting_cases:
  "(rate_limit_total_time w = 0 \<and> check_rate_limiting w a = Inl ZeroDivisionError)
   \<or> (rate_limit_total_time w \<noteq> 0 \<and> (\<exists>rate a3. check_rate_limiting w a = Inr (rate, a3)))"
  by (simp add: check_rate_limiting_def Let_def case_prod_beta)

lemma analyze_accessible:
  fixes caps w url a
  defines "a1 \<equiv> snd (check_basic_access w a)"
  defines "a2 \<equiv> snd (check_user_agent_protection w a1)"
  assumes acc: "ba_accessible (fst (check_basic_access w a))"
  assumes rl: "check_rate_limiting w a2 = Inr (rate, a3)"
  defines "a4 \<equiv> snd (check_cloudflare_protection w a3)"
  defines "a5 \<equiv> snd (check_javascript_protection caps w a4)"
  defines "a6 \<equiv> snd (check_captcha_protection w a5)"
  defines "a7 \<equiv> snd (check_cookie_requirements w a6)"
  shows "\<exists>R. protection_analyze caps w url a = Inr (R, snd (test_bypass_methods caps w a7))
    \<and> mechanisms R =
        [(''basic_access'',
            \<lparr>detected = True, score = 10,
             description = Status_size (ba_status_code (fst (check_basic_access w a)))
                             (ba_content_length (fst (check_basic_access w a)))\<rparr>),
         (''user_agent'',
            \<lparr>detected = ua_protection_detected (fst (check_user_agent_protection w a1)),
             score = (if ua_protection_detected (fst (check_user_agent_protection w a1))
                      then 20 else 5),
             description = ua_description (fst (check_user_agent_protection w a1))\<rparr>),
         (''rate_limiting'',
            \<lparr>detected = rl_protection_detected rate,
             score = (if rl_protection_detected rate then 15 else 5),
             description = rl_description rate\<rparr>),
         (''cloudflare'',
            \<lparr>detected = cf_detected (fst (check_cloudflare_protection w a3)),
             score = (if cf_detected (fst (check_cloudflare_protection w a3)) then 25 else 0),
             description = cf_description (fst (check_cloudflare_protection w a3))\<rparr>),
         (''javascript'',
            \<lparr>detected = js_required (fst (check_javascript_protection caps w a4)),
             score = (if js_required (fst (check_javascript_protection caps w a4))
                      then 30 else 10),
             description = js_description (fst (check_javascript_protection caps w a4))\<rparr>),
         (''captcha'',
            \<lparr>detected = cap_detected (fst (check_captcha_protection w a5)),
             score = (if cap_detected (fst (check_captcha_protection w a5)) then 40 else 0),
             description = cap_description (fst (check_captcha_protection w a5))\<rparr>),
         (''cookies'',
            \<lparr>detected = ck_cookies_used (fst (check_cookie_requirements w a6)),
             score = (if ck_cookies_used (fst (check_cookie_requirements w a6)) then 10 else 5),
             description = ck_description (fst (check_cookie_requirements w a6))\<rparr>)]
    \<and> total_score R = sum_list (map (\<lambda>mechanism. score mechanism) (map snd (mechanisms R)))
    \<and> complexity_level R =
         (if total_score R \<ge> 80 then ''CRITICAL''
          else if total_score R \<ge> 60 then ''HIGH''
          else if total_score R \<ge> 40 then ''MEDIUM'' else ''LOW'')
    \<and> bypass_methods R = fst (test_bypass_methods caps w a7)
    \<and> pr_url R = url \<and> pr_timestamp R = strftime w"
  using acc rl unfolding a1_def a2_def a4_def a5_def a6_def a7_def
  apply (simp only: protection_analyze_def Let_def case_prod_beta)
  apply (simp add: score_and_rank_fields score_and_rank_level set_mechanism_def
           split del: if_split)
  done

lemma analyze_accessible_rate:
  assumes eq: "protection_analyze caps w url a = Inr (r, a')"
    and acc: "ba_accessible (fst (check_basic_access w a))"
  shows "\<exists>rate a3. check_rate_limiting w
           (snd (check_user_agent_protection w (snd (check_basic_access w a)))) = Inr (rate, a3)"
proof (cases "check_rate_limiting w
           (snd (check_user_agent_protection w (snd (check_basic_access w a))))")
  case (Inl e)
  from analyze_rate_limit_error [OF acc Inl] eq show ?thesis by simp
next
  case (Inr p)
  then show ?thesis by (cases p) simp
qed

lemma analyze_accessible_level:
  assumes eq: "protection_analyze caps w url a = Inr (r, a')"
    and acc: "ba_accessible (fst (check_basic_access w a))"
  shows "total_score r = sum_list (map (\<lambda>mechanism. score mechanism) (map snd (mechanisms r)))
    \<and> complexity_level r =
         (if total_score r \<ge> 80 then ''CRITICAL''
          else if total_score r \<ge> 60 then ''HIGH''
          else if total_score r \<ge> 40 then ''MEDIUM'' else ''LOW'')"
proof -
  from analyze_accessible_rate [OF eq acc] obtain rate a3 where
    rl: "check_rate_limiting w
           (snd (check_user_agent_protection w (snd (check_basic_access w a)))) = Inr (rate, a3)"
    by blast
  from analyze_accessible [OF acc rl, of caps url] eq
  show ?thesis by (auto split del: if_split)
qed

lemma analyze_returns:
  assumes "rate_limit_total_time w \<noteq> 0"
  shows "\<exists>r a'. protection_analyze caps w url a = Inr (r, a')"
proof (cases "ba_accessible (fst (check_basic_access w a))")
  case False
  from analyze_inaccessible [OF False] show ?thesis by blast
next
  case True
  from check_rate_limiting_cases
         [of w "snd (check_user_agent_protection w (snd (check_basic_access w a)))"] assms
  obtain rate a3 where "check_rate_limiting w
     (snd (check_user_agent_protection w (snd (check_basic_access w a)))) = Inr (rate, a3)"
    by auto
  with True show ?thesis
    by (simp add: protection_analyze_def Let_def case_prod_beta)
qed

lemma check_user_agent_protection_state:
  "snd (check_user_agent_protection w a) = a\<lparr>requests_made := requests_made a + 4\<rparr>"
  using ua_requests_state [of w user_agents a]
  by (simp add: check_user_agent_protection_def case_prod_beta Let_def user_agents_def)

lemma check_rate_limiting_state:
  assumes "check_rate_limiting w a = Inr (rate, a3)"
  shows "a3 = a\<lparr>requests_made := requests_made a + 10\<rparr>"
  using assms rl_requests_state [of w "[0..<10]" a]
  by (simp add: check_rate_limiting_def case_prod_beta Let_def split: if_splits)

lemma check_cloudflare_protection_state:
  "snd (check_cloudflare_protection w a) = a\<lparr>requests_made := Suc (requests_made a)\<rparr>"
  by (simp add: check_cloudflare_protection_def session_get_def)

lemma plain_site_probes:
  fixes a1 a2 a3 a4 a5 a6
  defines "a1 \<equiv> snd (check_basic_access plain_site fresh_analyzer)"
  defines "a2 \<equiv> snd (check_user_agent_protection plain_site a1)"
  defines "a3 \<equiv> snd (projr (check_rate_limiting plain_site a2))"
  defines "a4 \<equiv> snd (check_cloudflare_protection plain_site a3)"
  defines "a5 \<equiv> snd (check_javascript_protection no_capabilities plain_site a4)"
  defines "a6 \<equiv> snd (check_captcha_protection plain_site a5)"
  shows "ba_accessible (fst (check_basic_access plain_site fresh_analyzer))"
    and "\<not> ua_protection_detected (fst (check_user_agent_protection plain_site a1))"
    and "\<not> rl_protection_detected (fst (projr (check_rate_limiting plain_site a2)))"
    and "\<not> cf_detected (fst (check_cloudflare_protection plain_site a3))"
    and "\<not> js_required (fst (check_javascript_protection no_capabilities plain_site a4))"
    and "\<not> cap_detected (fst (check_captcha_protection plain_site a5))"
    and "\<not> ck_cookies_used (fst (check_cookie_requirements plain_site a6))"
  unfolding a1_def a2_def a3_def a4_def a5_def a6_def
  by code_simp+

lemma plain_site_report:
  "\<exists>r a'. protection_analyze no_capabilities plain_site ''http://example.com'' fresh_analyzer
             = Inr (r, a')
     \<and> total_score r = 35
     \<and> map (\<lambda>(name, f). (name, score f)) (mechanisms r) =
        [(''basic_access'', 10), (''user_agent'', 5), (''rate_limiting'', 5),
         (''cloudflare'', 0), (''javascript'', 10), (''captcha'', 0), (''cookies'', 5)]"
proof -
  have "rate_limit_total_time plain_site \<noteq> 0" by (simp add: plain_site_def)
  with check_rate_limiting_cases [of plain_site
         "snd (check_user_agent_protection plain_site
                (snd (check_basic_access plain_site fresh_analyzer)))"]
  obtain rate a3 where
    rl: "check_rate_limiting plain_site
           (snd (check_user_agent_protection plain_site
                  (snd (check_basic_access plain_site fresh_analyzer)))) = Inr (rate, a3)"
    by auto
  have acc: "ba_accessible (fst (check_basic_access plain_site fresh_analyzer))"
    by (rule plain_site_probes)
  from analyze_accessible [OF acc rl, of no_capabilities "''http://example.com''"]
  show ?thesis
    using plain_site_probes(2-7) by (auto simp: rl)
qed

text \<open>
  C1. If the basic-access probe reports the URL inaccessible, the analysis returns a
  report whose total score is 100 and whose complexity level is CRITICAL; its mechanisms
  hold the single key \<open>basic_access\<close>, with \<open>detected\<close> false, and no other probe is
  evaluated: the analyzer has made the one request of the basic-access probe and the
  browser has not been touched.
\<close>

theorem inaccessible_short_circuit:
  assumes "\<not> ba_accessible (fst (check_basic_access w a))"
  shows "\<exists>r a'. protection_analyze caps w url a = Inr (r, a')
    \<and> total_score r = 100
    \<and> complexity_level r = ''CRITICAL''
    \<and> map fst (mechanisms r) = [''basic_access'']
    \<and> map (\<lambda>(name, f). detected f) (mechanisms r) = [False]
    \<and> bypass_methods r = []
    \<and> a' = a\<lparr>requests_made := Suc (requests_made a)\<rparr>"
  using analyze_inaccessible [OF assms, of caps url] by simp

theorem inaccessible_short_circuit_witness:
  "\<not> ba_accessible (fst (check_basic_access unavailable_site fresh_analyzer))
   \<and> (\<exists>r a'. protection_analyze no_capabilities unavailable_site ''http://example.com''
               fresh_analyzer = Inr (r, a')
        \<and> total_score r = 100
        \<and> complexity_level r = ''CRITICAL''
        \<and> map fst (mechanisms r) = [''basic_access'']
        \<and> map (\<lambda>(name, f). detected f) (mechanisms r) = [False]
        \<and> bypass_methods r = []
        \<and> a' = fresh_analyzer\<lparr>requests_made := Suc (requests_made fresh_analyzer)\<rparr>)"
proof -
  have h: "\<not> ba_accessible (fst (check_basic_access unavailable_site fresh_analyzer))"
    by (simp add: check_basic_access_def session_get_def unavailable_site_def plain_site_def
          plain_response_def fresh_analyzer_def)
  from h inaccessible_short_circuit [OF h, of no_capabilities "''http://example.com''"]
  show ?thesis by blast
qed

text \<open>
  C2. On the normal path (basic access succeeded and a report is returned) the complexity
  level is a step function of the total score: at least 80 gives CRITICAL, 60 to 79 HIGH,
  40 to 59 MEDIUM and less than 40 LOW.
\<close>

theorem level_step_function:
  assumes "protection_analyze caps w url a = Inr (r, a')"
    and "ba_accessible (fst (check_basic_access w a))"
  shows "(total_score r \<ge> 80 \<longrightarrow> complexity_level r = ''CRITICAL'')
    \<and> (60 \<le> total_score r \<and> total_score r < 80 \<longrightarrow> complexity_level r = ''HIGH'')
    \<and> (40 \<le> total_score r \<and> total_score r < 60 \<longrightarrow> complexity_level r = ''MEDIUM'')
    \<and> (total_score r < 40 \<longrightarrow> complexity_level r = ''LOW'')"
  using analyze_accessible_level [OF assms] by simp

theorem level_step_function_witness:
  "\<exists>r a'. protection_analyze no_capabilities plain_site ''http://example.com'' fresh_analyzer
             = Inr (r, a')
     \<and> ba_accessible (fst (check_basic_access plain_site fresh_analyzer))
     \<and> total_score r = 35 \<and> complexity_level r = ''LOW''"
proof -
  from plain_site_report obtain r a' where
    eq: "protection_analyze no_capabilities plain_site ''http://example.com'' fresh_analyzer
           = Inr (r, a')"
    and ts: "total_score r = 35"
    by auto
  have acc: "ba_accessible (fst (check_basic_access plain_site fresh_analyzer))"
    by (rule plain_site_probes)
  from level_step_function [OF eq acc] ts have "complexity_level r = ''LOW''" by simp
  with eq acc ts show ?thesis by simp
qed

text \<open>
  C3, as the specification states it: on the normal path the total score is the sum of
  the recorded mechanism scores without that of \<open>basic_access\<close>. It fails on a site that
  answers every request with a plain page: the total is 35, the sum without
  \<open>basic_access\<close> is 25.
\<close>

theorem total_without_basic_access_counterexample:
  "\<exists>r a'. protection_analyze no_capabilities plain_site ''http://example.com'' fresh_analyzer
             = Inr (r, a')
     \<and> ba_accessible (fst (check_basic_access plain_site fresh_analyzer))
     \<and> total_score r = 35
     \<and> sum_list (map (\<lambda>(name, f). score f)
          (filter (\<lambda>(name, f). name \<noteq> ''basic_access'') (mechanisms r))) = 25"
proof -
  from plain_site_report obtain r a' where
    eq: "protection_analyze no_capabilities plain_site ''http://example.com'' fresh_analyzer
           = Inr (r, a')"
    and ts: "total_score r = 35"
    and ms: "map (\<lambda>(name, f). (name, score f)) (mechanisms r) =
        [(''basic_access'', 10), (''user_agent'', 5), (''rate_limiting'', 5),
         (''cloudflare'', 0), (''javascript'', 10), (''captcha'', 0), (''cookies'', 5)]"
    by auto
  have acc: "ba_accessible (fst (check_basic_access plain_site fresh_analyzer))"
    by (rule plain_site_probes)
  have "sum_list (map (\<lambda>(name, f). score f)
          (filter (\<lambda>(name, f). name \<noteq> ''basic_access'') (mechanisms r)))
      = sum_list (map snd (filter (\<lambda>(name, s). name \<noteq> ''basic_access'')
          (map (\<lambda>(name, f). (name, score f)) (mechanisms r))))"
    by (induction "mechanisms r") (auto simp: filter_map comp_def case_prod_beta)
  also have "\<dots> = 25" by (simp add: ms)
  finally show ?thesis using eq acc ts by simp
qed

text \<open>
  C3, amended: on the normal path the total score is the sum of the scores of all the
  recorded mechanisms, \<open>basic_access\<close> included, which is the first key and has score 10;
  the total is 10 more than the sum over the other six mechanisms.
\<close>

theorem total_is_sum_of_all_mechanisms:
  assumes eq: "protection_analyze caps w url a = Inr (r, a')"
    and acc: "ba_accessible (fst (check_basic_access w a))"
  shows "total_score r = sum_list (map (\<lambda>(name, f). score f) (mechanisms r))
    \<and> map fst (mechanisms r) =
        [''basic_access'', ''user_agent'', ''rate_limiting'', ''cloudflare'', ''javascript'',
         ''captcha'', ''cookies'']
    \<and> score (snd (hd (mechanisms r))) = 10
    \<and> total_score r = 10 + sum_list (map (\<lambda>(name, f). score f)
          (filter (\<lambda>(name, f). name \<noteq> ''basic_access'') (mechanisms r)))"
proof -
  from analyze_accessible_rate [OF eq acc] obtain rate a3 where
    rl: "check_rate_limiting w
           (snd (check_user_agent_protection w (snd (check_basic_access w a)))) = Inr (rate, a3)"
    by blast
  from analyze_accessible [OF acc rl, of caps url] eq
  show ?thesis by (auto split del: if_split)
qed

theorem total_is_sum_of_all_mechanisms_witness:
  "\<exists>r a'. protection_analyze no_capabilities plain_site ''http://example.com'' fresh_analyzer
             = Inr (r, a')
     \<and> ba_accessible (fst (check_basic_access plain_site fresh_analyzer))
     \<and> total_score r = sum_list (map (\<lambda>(name, f). score f) (mechanisms r))
     \<and> map fst (mechanisms r) =
        [''basic_access'', ''user_agent'', ''rate_limiting'', ''cloudflare'', ''javascript'',
         ''captcha'', ''cookies'']
     \<and> score (snd (hd (mechanisms r))) = 10
     \<and> total_score r = 10 + sum_list (map (\<lambda>(name, f). score f)
          (filter (\<lambda>(name, f). name \<noteq> ''basic_access'') (mechanisms r)))"
proof -
  have "rate_limit_total_time plain_site \<noteq> 0" by (simp add: plain_site_def)
  from analyze_returns [OF this, of no_capabilities "''http://example.com''" fresh_analyzer]
  obtain r a' where
    eq: "protection_analyze no_capabilities plain_site ''http://example.com'' fresh_analyzer
           = Inr (r, a')"
    by blast
  have acc: "ba_accessible (fst (check_basic_access plain_site fresh_analyzer))"
    by (rule plain_site_probes)
  from total_is_sum_of_all_mechanisms [OF eq acc] eq acc show ?thesis by simp
qed

text \<open>
  C6, as the specification states it: the analysis raises a network error when the very
  first basic-access probe cannot be performed at all. It does not: when the host name of
  the site does not resolve and the first request raises, the analysis returns a report,
  with the failure recorded in the \<open>basic_access\<close> finding.
\<close>

theorem first_probe_failure_counterexample:
  "http_get unreachable_site (requests_made fresh_analyzer) = Inl ''Name or service not known''
   \<and> protection_analyze no_capabilities unreachable_site ''http://example.com'' fresh_analyzer =
       Inr (\<lparr>pr_url = ''http://example.com'', pr_timestamp = ''2025-09-14 12:00:00'',
             mechanisms = [(''basic_access'',
                \<lparr>detected = False, score = 0, description = Status_size 0 0\<rparr>)],
             bypass_methods = [], total_score = 100, complexity_level = ''CRITICAL'',
             best_method = None, bypass_success_rate = None\<rparr>,
            fresh_analyzer\<lparr>requests_made := 1\<rparr>)"
proof -
  have h: "\<not> ba_accessible (fst (check_basic_access unreachable_site fresh_analyzer))"
    by (simp add: check_basic_access_def session_get_def unreachable_site_def plain_site_def
          fresh_analyzer_def)
  have b: "fst (check_basic_access unreachable_site fresh_analyzer) =
      \<lparr>ba_status_code = 0, ba_accessible = False, ba_error = Some ''Name or service not known'',
       ba_content_length = 0, ba_response_time = 0, ba_headers = []\<rparr>"
    by (simp add: check_basic_access_def session_get_def unreachable_site_def plain_site_def
          fresh_analyzer_def)
  show ?thesis
    using analyze_inaccessible [OF h, of no_capabilities "''http://example.com''"]
    by (simp add: b) (simp add: unreachable_site_def plain_site_def fresh_analyzer_def)
qed

text \<open>
  C6, amended: the analysis never raises a network error, whatever the outcomes of its
  requests are. A first basic-access probe that cannot be performed is recorded in the
  \<open>basic_access\<close> finding (not detected, status 0) of a returned report with total score
  100 and level CRITICAL; when the first probe succeeds, the failures of the later
  requests are recorded in the findings of the seven mechanisms of the report, which is
  returned whenever the time measured by the rate-limit probe is not zero.
\<close>

theorem probe_failures_are_findings:
  "(\<forall>e. protection_analyze caps w url a \<noteq> Inl (NetworkError e))
   \<and> (\<forall>e. http_get w (requests_made a) = Inl e \<longrightarrow>
         (\<exists>r a'. protection_analyze caps w url a = Inr (r, a')
            \<and> mechanisms r = [(''basic_access'',
                 \<lparr>detected = False, score = 0, description = Status_size 0 0\<rparr>)]
            \<and> total_score r = 100 \<and> complexity_level r = ''CRITICAL''))
   \<and> (ba_accessible (fst (check_basic_access w a)) \<and> rate_limit_total_time w \<noteq> 0 \<longrightarrow>
         (\<exists>r a'. protection_analyze caps w url a = Inr (r, a')
            \<and> map fst (mechanisms r) =
                 [''basic_access'', ''user_agent'', ''rate_limiting'', ''cloudflare'',
                  ''javascript'', ''captcha'', ''cookies'']))"
proof -
  have raised: "e = ZeroDivisionError \<and> rate_limit_total_time w = 0"
    if e: "protection_analyze caps w url a = Inl e" for e
  proof (cases "rate_limit_total_time w = 0")
    case False
    from analyze_returns [OF False, of caps url a] e show ?thesis by auto
  next
    case True
    show ?thesis
    proof (cases "ba_accessible (fst (check_basic_access w a))")
      case False
      from analyze_inaccessible [OF False, of caps url] e show ?thesis by simp
    next
      case acc: True
      from check_rate_limiting_cases
             [of w "snd (check_user_agent_protection w (snd (check_basic_access w a)))"] True
      have "check_rate_limiting w
              (snd (check_user_agent_protection w (snd (check_basic_access w a))))
            = Inl ZeroDivisionError"
        by auto
      from analyze_rate_limit_error [OF acc this, of caps url] e True show ?thesis by simp
    qed
  qed
  have first: "\<exists>r a'. protection_analyze caps w url a = Inr (r, a')
            \<and> mechanisms r = [(''basic_access'',
                 \<lparr>detected = False, score = 0, description = Status_size 0 0\<rparr>)]
            \<and> total_score r = 100 \<and> complexity_level r = ''CRITICAL''"
    if e: "http_get w (requests_made a) = Inl e" for e
  proof -
    have b: "fst (check_basic_access w a) =
      \<lparr>ba_status_code = 0, ba_accessible = False, ba_error = Some e,
       ba_content_length = 0, ba_response_time = 0, ba_headers = []\<rparr>"
      using e by (simp add: check_basic_access_def session_get_def)
    then have "\<not> ba_accessible (fst (check_basic_access w a))" by simp
    from analyze_inaccessible [OF this, of caps url] show ?thesis by (simp add: b)
  qed
  have later: "\<exists>r a'. protection_analyze caps w url a = Inr (r, a')
            \<and> map fst (mechanisms r) =
                 [''basic_access'', ''user_agent'', ''rate_limiting'', ''cloudflare'',
                  ''javascript'', ''captcha'', ''cookies'']"
    if acc: "ba_accessible (fst (check_basic_access w a))"
      and t: "rate_limit_total_time w \<noteq> 0"
  proof -
    from analyze_returns [OF t, of caps url a] obtain r a' where
      eq: "protection_analyze caps w url a = Inr (r, a')" by auto
    from analyze_accessible_rate [OF eq acc] obtain rate a3 where
      rl: "check_rate_limiting w
             (snd (check_user_agent_protection w (snd (check_basic_access w a))))
           = Inr (rate, a3)"
      by auto
    from analyze_accessible [OF acc rl, of caps url] eq
    show ?thesis by (auto split del: if_split)
  qed
  from raised have "\<forall>e. protection_analyze caps w url a \<noteq> Inl (NetworkError e)" by auto
  with raised first later show ?thesis by (intro conjI allI impI) auto
qed

theorem probe_failures_are_findings_witness:
  "http_get flaky_site (requests_made fresh_analyzer) = Inr plain_response
   \<and> (\<lambda>n. http_get flaky_site (Suc (requests_made fresh_analyzer + n)))
       = (\<lambda>n. Inl ''Connection refused'')
   \<and> ba_accessible (fst (check_basic_access flaky_site fresh_analyzer))
   \<and> rate_limit_total_time flaky_site \<noteq> 0
   \<and> (\<exists>r a'. protection_analyze no_capabilities flaky_site ''http://example.com''
                 fresh_analyzer = Inr (r, a')
          \<and> map fst (mechanisms r) =
               [''basic_access'', ''user_agent'', ''rate_limiting'', ''cloudflare'',
                ''javascript'', ''captcha'', ''cookies''])"
proof -
  have acc: "ba_accessible (fst (check_basic_access flaky_site fresh_analyzer))"
    by (simp add: check_basic_access_def session_get_def flaky_site_def plain_site_def
          plain_response_def fresh_analyzer_def)
  have t: "rate_limit_total_time flaky_site \<noteq> 0"
    by (simp add: flaky_site_def plain_site_def)
  have g: "http_get flaky_site (requests_made fresh_analyzer) = Inr plain_response"
    "(\<lambda>n. http_get flaky_site (Suc (requests_made fresh_analyzer + n)))
       = (\<lambda>n. Inl ''Connection refused'')"
    by (simp_all add: flaky_site_def plain_site_def fresh_analyzer_def)
  from probe_failures_are_findings
         [of no_capabilities flaky_site "''http://example.com''" fresh_analyzer] acc t
  have "\<exists>r a'. protection_analyze no_capabilities flaky_site ''http://example.com''
                 fresh_analyzer = Inr (r, a')
          \<and> map fst (mechanisms r) =
               [''basic_access'', ''user_agent'', ''rate_limiting'', ''cloudflare'',
                ''javascript'', ''captcha'', ''cookies'']"
    by simp
  with acc t g show ?thesis by simp
qed

text \<open>
  C8. Without the headless browser, the JavaScript probe of a run whose basic access
  succeeded looks at the body of the response to its request (after the one request of the
  basic-access probe, the four of the user-agent probe, the ten of the rate-limit probe
  and the one of the Cloudflare probe) and counts five indicators: more than ten
  \<open><script\<close> tags, the words "loading", "please wait" and "javascript" (all without
  regard to case) and a body shorter than 1000 characters. JavaScript is required exactly
  when at least two of the five hold, and the recorded mechanism has score 30 if it is
  required and 10 if not.
\<close>

theorem javascript_fallback_heuristic:
  fixes response :: response
  defines "body \<equiv> resp_text response"
  defines "n \<equiv> (if findall_count ''<script'' (lower body) > 10 then 1 else 0)
               + (if contains ''loading'' (lower body) then 1 else 0)
               + (if contains ''please wait'' (lower body) then 1 else 0)
               + (if contains ''javascript'' (lower body) then 1 else 0)
               + (if length body < 1000 then 1 else (0::nat))"
  assumes nosel: "\<not> SELENIUM_AVAILABLE caps"
    and eq: "protection_analyze caps w url a = Inr (r, a')"
    and acc: "ba_accessible (fst (check_basic_access w a))"
    and js: "http_get w (requests_made a + 16) = Inr response"
  shows "js_required (fst (check_javascript_protection caps w
                             (a\<lparr>requests_made := requests_made a + 16\<rparr>))) = (n \<ge> 2)
    \<and> js_indicators_found (fst (check_javascript_protection caps w
                             (a\<lparr>requests_made := requests_made a + 16\<rparr>))) = Some n
    \<and> map_of (mechanisms r) ''javascript'' =
        Some \<lparr>detected = (n \<ge> 2), score = (if n \<ge> 2 then 30 else 10),
              description = (if n \<ge> 2 then Javascript_maybe_required
                             else Javascript_not_required)\<rparr>"
proof -
  have n: "sum_bools (js_indicators body) = n"
    by (simp add: n_def js_indicators_def sum_bools_def)
  have probe: "fst (check_javascript_protection caps w (a\<lparr>requests_made := requests_made a + 16\<rparr>))
      = \<lparr>js_required = (n \<ge> 2), js_content_difference = None, js_similarity = None,
         js_indicators_found = Some n, js_error = None,
         js_description = (if n \<ge> 2 then Javascript_maybe_required
                           else Javascript_not_required)\<rparr>"
    using nosel js
    by (simp add: check_javascript_protection_def session_get_def Let_def n body_def [symmetric])
  from analyze_accessible_rate [OF eq acc] obtain rate a3 where
    rl: "check_rate_limiting w
           (snd (check_user_agent_protection w (snd (check_basic_access w a)))) = Inr (rate, a3)"
    by auto
  have a4: "snd (check_cloudflare_protection w a3) = a\<lparr>requests_made := requests_made a + 16\<rparr>"
    using check_rate_limiting_state [OF rl]
    by (simp add: check_cloudflare_protection_state check_user_agent_protection_state
          check_basic_access_state)
  from analyze_accessible [OF acc rl, of caps url] eq
  have "map_of (mechanisms r) ''javascript'' =
     Some \<lparr>detected = js_required (fst (check_javascript_protection caps w
                          (snd (check_cloudflare_protection w a3)))),
           score = (if js_required (fst (check_javascript_protection caps w
                          (snd (check_cloudflare_protection w a3)))) then 30 else 10),
           description = js_description (fst (check_javascript_protection caps w
                          (snd (check_cloudflare_protection w a3))))\<rparr>"
    by (auto split del: if_split)
  then show ?thesis
    by (simp add: a4 probe split del: if_split)
qed

lemma waiting_page_indicators:
  "(if findall_count ''<script'' (lower waiting_page) > 10 then 1 else 0)
     + (if contains ''loading'' (lower waiting_page) then 1 else 0)
     + (if contains ''please wait'' (lower waiting_page) then 1 else 0)
     + (if contains ''javascript'' (lower waiting_page) then 1 else 0)
     + (if length waiting_page < 1000 then 1 else (0::nat)) = 4"
  by code_simp

theorem javascript_fallback_heuristic_witness:
  "\<not> SELENIUM_AVAILABLE no_capabilities
   \<and> ba_accessible (fst (check_basic_access js_gated_site fresh_analyzer))
   \<and> http_get js_gated_site (requests_made fresh_analyzer + 16)
       = Inr (plain_response\<lparr>resp_text := waiting_page\<rparr>)
   \<and> (\<exists>r a'. protection_analyze no_capabilities js_gated_site ''http://example.com''
                 fresh_analyzer = Inr (r, a')
          \<and> map_of (mechanisms r) ''javascript'' =
               Some \<lparr>detected = True, score = 30, description = Javascript_maybe_required\<rparr>)"
proof -
  have nosel: "\<not> SELENIUM_AVAILABLE no_capabilities" by (simp add: no_capabilities_def)
  have acc: "ba_accessible (fst (check_basic_access js_gated_site fresh_analyzer))"
    by (simp add: check_basic_access_def session_get_def js_gated_site_def plain_site_def
          plain_response_def fresh_analyzer_def)
  have js: "http_get js_gated_site (requests_made fresh_analyzer + 16)
       = Inr (plain_response\<lparr>resp_text := waiting_page\<rparr>)"
    by (simp add: js_gated_site_def plain_site_def)
  have "rate_limit_total_time js_gated_site \<noteq> 0"
    by (simp add: js_gated_site_def plain_site_def)
  from analyze_returns [OF this, of no_capabilities "''http://example.com''" fresh_analyzer]
  obtain r a' where
    eq: "protection_analyze no_capabilities js_gated_site ''http://example.com''
           fresh_analyzer = Inr (r, a')"
    by auto
  from javascript_fallback_heuristic [OF nosel eq acc js]
  have "map_of (mechanisms r) ''javascript'' =
          Some \<lparr>detected = True, score = 30, description = Javascript_maybe_required\<rparr>"
    by (simp add: waiting_page_indicators)
  with nosel acc js eq show ?thesis by simp
qed

section \<open>Properties of the structure analyzer\<close>

lemma insert_desc_set: "set (insert_desc key x ys) = insert x (set ys)"
  by (induction ys) auto

lemma insert_desc_sorted:
  "sorted_wrt (\<lambda>a b. key a \<ge> key b) ys \<Longrightarrow> sorted_wrt (\<lambda>a b. key a \<ge> key b) (insert_desc key x ys)"
  by (induction ys) (auto simp: insert_desc_set)

lemma sorted_reverse_Cons:
  "sorted_reverse key (x # xs) = insert_desc key x (sorted_reverse key xs)"
  by (simp add: sorted_reverse_def)

lemma sorted_reverse_Nil: "sorted_reverse key [] = []"
  by (simp add: sorted_reverse_def)

lemma sorted_reverse_sorted: "sorted_wrt (\<lambda>a b. key a \<ge> key b) (sorted_reverse key xs)"
  by (induction xs) (simp_all add: sorted_reverse_Nil sorted_reverse_Cons insert_desc_sorted)

lemma insert_desc_filter:
  "sorted_wrt (\<lambda>a b. key a \<ge> key b) ys \<Longrightarrow>
   filter (\<lambda>y. key y = k) (insert_desc key x ys) =
     (if key x = k then x # filter (\<lambda>y. key y = k) ys else filter (\<lambda>y. key y = k) ys)"
  by (induction ys) auto

lemma sorted_reverse_stable:
  "filter (\<lambda>y. key y = k) (sorted_reverse key xs) = filter (\<lambda>y. key y = k) xs"
  by (induction xs)
     (simp_all add: sorted_reverse_Nil sorted_reverse_Cons insert_desc_filter sorted_reverse_sorted)

lemma insert_desc_sorted_id:
  "sorted_wrt (\<lambda>a b. key a \<ge> key b) (x # ys) \<Longrightarrow> insert_desc key x ys = x # ys"
  by (cases ys) auto

lemma sorted_reverse_id:
  "sorted_wrt (\<lambda>a b. key a \<ge> key b) xs \<Longrightarrow> sorted_reverse key xs = xs"
  by (induction xs) (auto simp: sorted_reverse_Nil sorted_reverse_Cons insert_desc_sorted_id)

lemma sorted_reverse_eq_Nil: "sorted_reverse key xs = [] \<longleftrightarrow> xs = []"
  by (cases xs) (auto simp: sorted_reverse_Nil sorted_reverse_Cons dest: arg_cong [where f = set] simp: insert_desc_set)

lemma type_candidates_append:
  "type_candidates soup pats acc = acc @ type_candidates soup pats []"
proof (induction pats arbitrary: acc)
  case Nil
  then show ?case by simp
next
  case (Cons p pats)
  show ?case
    using Cons.IH [of "acc @ [x]" for x] Cons.IH [of "[x]" for x] Cons.IH [of acc]
    by (simp split: sum.splits)
qed

lemma type_candidates_none:
  assumes "\<forall>p \<in> set pats. \<forall>els. select soup p = Inr els \<longrightarrow> els = []"
  shows "type_candidates soup pats acc = acc"
  using assms by (induction pats arbitrary: acc) (auto split: sum.splits)

lemma type_candidates_selectors:
  "map cand_selector (type_candidates soup pats []) =
     filter (\<lambda>p. \<exists>els. select soup p = Inr els \<and> els \<noteq> []) pats"
proof (induction pats)
  case Nil
  then show ?case by simp
next
  case (Cons p pats)
  show ?case
    using Cons.IH type_candidates_append [of soup pats "[x]" for x]
    by (auto split: sum.splits)
qed

lemma type_candidates_counts:
  "c \<in> set (type_candidates soup pats []) \<Longrightarrow>
     \<exists>els. select soup (cand_selector c) = Inr els \<and> els \<noteq> [] \<and> cand_count c = length els"
proof (induction pats)
  case Nil
  then show ?case by simp
next
  case (Cons p pats)
  then show ?case
    using type_candidates_append [of soup pats "[x]" for x]
    by (auto split: sum.splits if_splits)
qed

lemma map_of_dict_set:
  "map_of (dict_set d k v) k' = (if k' = k then Some v else map_of d k')"
  by (induction d) auto

lemma add_common_selectors_other:
  assumes "\<forall>name \<in> fst ` set cs. k \<noteq> ''common_'' @ name"
  shows "map_of (add_common_selectors soup cs sel) k = map_of sel k"
  using assms
  by (induction cs arbitrary: sel) (auto simp: map_of_dict_set split: sum.splits)

lemma content_selectors_other:
  assumes "k \<notin> fst ` set cps"
  shows "map_of (content_selectors soup cps sel) k = map_of sel k"
  using assms
  by (induction cps arbitrary: sel) (auto simp: map_of_dict_set Let_def)

lemma content_selectors_key:
  assumes "distinct (map fst cps)" and "(k, pats) \<in> set cps"
  shows "map_of (content_selectors soup cps sel) k =
     (if type_candidates soup pats [] \<noteq> [] then
        Some (sorted_reverse cand_count (type_candidates soup pats []))
      else map_of sel k)"
  using assms
proof (induction cps arbitrary: sel)
  case Nil
  then show ?case by simp
next
  case (Cons cp cps)
  obtain k' pats' where cp: "cp = (k', pats')" by (cases cp)
  show ?case
  proof (cases "k' = k")
    case True
    with Cons.prems cp have p: "pats' = pats" and nk: "k \<notin> fst ` set cps"
      by (auto simp: rev_image_eqI)
    show ?thesis
      using cp True p
      by (simp add: Let_def map_of_dict_set content_selectors_other [OF nk])
  next
    case False
    with Cons.prems cp have "distinct (map fst cps)" "(k, pats) \<in> set cps" by auto
    from Cons.IH [OF this] cp False show ?thesis
      by (simp add: Let_def map_of_dict_set)
  qed
qed

lemma generate_selectors_key:
  assumes "(k, pats) \<in> set content_patterns"
  shows "map_of (generate_selectors soup cts) k =
     (if type_candidates soup pats [] \<noteq> [] then
        Some (sorted_reverse cand_count (type_candidates soup pats []))
      else None)"
proof -
  have d: "distinct (map fst content_patterns)"
    by (simp add: content_patterns_def)
  have c: "\<forall>name \<in> fst ` set common_selectors. k \<noteq> ''common_'' @ name"
    using assms by (auto simp: content_patterns_def common_selectors_def)
  show ?thesis
    using content_selectors_key [OF d assms, of soup "[]"]
    by (simp add: generate_selectors_def add_common_selectors_other [OF c])
qed

text \<open>
  C4, as the specification states it: when the page cannot be retrieved,
  \<open>StructureAnalyzer.analyze\<close> raises and returns no result value. It does not: when the
  request for the page raises, \<open>get_page_content\<close> raises, and \<open>analyze\<close> catches that and
  returns a result value with the error in it.
\<close>

theorem fetch_failure_counterexample:
  "get_page_content offline_web = Inl (FetchError ''Connection refused'')
   \<and> structure_analyze no_steps offline_web ''http://example.com'' =
       Inr \<lparr>sr_url = ''http://example.com'', sr_timestamp = ''2025-09-14 12:00:00'',
            sr_analysis_type = ''structure'', sr_basic_info = None, sr_dom_structure = None,
            sr_content_types = None, sr_links_forms = None, sr_scripts = None,
            sr_styles = None, sr_frameworks_detected = None, sr_suggested_selectors = None,
            sr_performance = None, sr_parsing_complexity = None,
            sr_error = Some (FetchError ''Connection refused''), sr_success = Some False\<rparr>"
  by (simp add: structure_analyze_def get_page_content_def failed_def offline_web_def)

text \<open>
  C4, amended: for every URL whose page cannot be retrieved or parsed (\<open>get_page_content\<close>
  raises), \<open>StructureAnalyzer.analyze\<close> does not raise: it returns a result value that
  holds the URL, the time stamp, the analysis type, the error and \<open>success = False\<close>, and
  none of the keys of the analysis.
\<close>

theorem fetch_failure_returns_error_report:
  assumes "get_page_content web = Inl e"
  shows "structure_analyze steps web url =
       Inr \<lparr>sr_url = url, sr_timestamp = web_strftime web,
            sr_analysis_type = ''structure'', sr_basic_info = None, sr_dom_structure = None,
            sr_content_types = None, sr_links_forms = None, sr_scripts = None,
            sr_styles = None, sr_frameworks_detected = None, sr_suggested_selectors = None,
            sr_performance = None, sr_parsing_complexity = None,
            sr_error = Some e, sr_success = Some False\<rparr>
    \<and> (\<exists>text. e = FetchError text)"
proof -
  from assms have "\<exists>text. e = FetchError text"
    by (auto simp: get_page_content_def split: sum.splits option.splits)
  with assms show ?thesis
    by (simp add: structure_analyze_def failed_def)
qed

theorem fetch_failure_returns_error_report_witness:
  "get_page_content offline_web = Inl (FetchError ''Connection refused'')
   \<and> structure_analyze no_steps offline_web ''http://example.org'' =
       Inr \<lparr>sr_url = ''http://example.org'', sr_timestamp = web_strftime offline_web,
            sr_analysis_type = ''structure'', sr_basic_info = None, sr_dom_structure = None,
            sr_content_types = None, sr_links_forms = None, sr_scripts = None,
            sr_styles = None, sr_frameworks_detected = None, sr_suggested_selectors = None,
            sr_performance = None, sr_parsing_complexity = None,
            sr_error = Some (FetchError ''Connection refused''), sr_success = Some False\<rparr>"
proof -
  have h: "get_page_content offline_web = Inl (FetchError ''Connection refused'')"
    by (simp add: get_page_content_def offline_web_def)
  from fetch_failure_returns_error_report [OF h, of no_steps "''http://example.org''"] h
  show ?thesis by simp
qed

text \<open>
  C7, as the specification states it: a category none of whose candidate patterns matches
  an element is mapped to an empty candidate list and its key is not omitted. It fails on
  a document without elements: the result has no key \<open>products\<close> (it has no key at all).
\<close>

theorem unmatched_category_counterexample:
  "(''products'', [''[class*=\"product\"]'', ''[class*=\"item\"]'', ''[class*=\"card\"]''])
     \<in> set content_patterns
   \<and> map (select empty_soup) [''[class*=\"product\"]'', ''[class*=\"item\"]'', ''[class*=\"card\"]'']
       = [Inr [], Inr [], Inr []]
   \<and> map_of (generate_selectors empty_soup (detect_content_types empty_soup)) ''products''
       \<noteq> Some []
   \<and> generate_selectors empty_soup (detect_content_types empty_soup) = []"
  by (simp add: generate_selectors_def content_patterns_def common_selectors_def empty_soup_def)

text \<open>
  C7, amended: for every parsed document and every category of the selector synthesis
  (products, articles, navigation, forms, lists), if no element matches any candidate
  pattern of that category (the pattern matches nothing, or the parser rejects it), then
  the suggested selectors have no key for that category; no error is raised.
\<close>

theorem unmatched_category_has_no_key:
  assumes "(content_type, pats) \<in> set content_patterns"
    and "\<forall>p \<in> set pats. \<forall>els. select soup p = Inr els \<longrightarrow> els = []"
  shows "map_of (generate_selectors soup content_types) content_type = None
    \<and> content_type \<in> {''products'', ''articles'', ''navigation'', ''forms'', ''lists''}"
proof -
  from assms(1) have "content_type \<in> {''products'', ''articles'', ''navigation'', ''forms'', ''lists''}"
    by (auto simp: content_patterns_def)
  with generate_selectors_key [OF assms(1), of soup content_types]
    type_candidates_none [OF assms(2), of "[]"]
  show ?thesis by simp
qed

theorem unmatched_category_has_no_key_witness:
  "(''products'', [''[class*=\"product\"]'', ''[class*=\"item\"]'', ''[class*=\"card\"]''])
     \<in> set content_patterns
   \<and> map (select blog_soup) [''[class*=\"product\"]'', ''[class*=\"item\"]'', ''[class*=\"card\"]'']
       = [Inr [], Inr [], Inr []]
   \<and> map_of (generate_selectors blog_soup (detect_content_types blog_soup)) ''products'' = None"
proof -
  have c: "(''products'', [''[class*=\"product\"]'', ''[class*=\"item\"]'', ''[class*=\"card\"]''])
     \<in> set content_patterns"
    by (simp add: content_patterns_def)
  have m: "map (select blog_soup) [''[class*=\"product\"]'', ''[class*=\"item\"]'', ''[class*=\"card\"]'']
       = [Inr [], Inr [], Inr []]"
    by (simp add: blog_soup_def)
  then have "\<forall>p \<in> set [''[class*=\"product\"]'', ''[class*=\"item\"]'', ''[class*=\"card\"]''].
      \<forall>els. select blog_soup p = Inr els \<longrightarrow> els = []"
    by auto
  from unmatched_category_has_no_key [OF c this, of "detect_content_types blog_soup"] c m
  show ?thesis by simp
qed

text \<open>
  C9. The classification of a document is repeatable: two runs on documents that answer
  every query of the parser alike (the unchanged document) give the same content-type
  tallies and the same selector candidates in the same order, whatever tallies are passed
  to the selector synthesis. The candidates of each category are ordered by their match
  count, the greatest first, and candidates with equal counts keep the order of their
  patterns: for every count \<open>k\<close>, the selectors of the candidates with that count are the
  patterns with \<open>k\<close> matches, in the order of the pattern list. Sorting the candidates again
  leaves them as they are.
\<close>

theorem classification_repeatable_and_ranked:
  fixes soup soup' :: "'e soup"
  assumes same: "select soup' = select soup" "find_all_class soup' = find_all_class soup"
      "find_all_id soup' = find_all_id soup" "element_text soup' = element_text soup"
    and cat: "(content_type, pats) \<in> set content_patterns"
    and cands: "map_of (generate_selectors soup content_types) content_type = Some cands"
  shows "detect_content_types soup' = detect_content_types soup
    \<and> generate_selectors soup' content_types' = generate_selectors soup content_types
    \<and> sorted_wrt (\<lambda>a b. cand_count a \<ge> cand_count b) cands
    \<and> (\<forall>k. map cand_selector (filter (\<lambda>c. cand_count c = k) cands) =
             filter (\<lambda>p. \<exists>els. select soup p = Inr els \<and> els \<noteq> [] \<and> length els = k) pats)
    \<and> sorted_reverse cand_count cands = cands"
proof -
  have eq: "soup' = soup"
    using same by (intro soup.equality) simp_all
  define tc where "tc = type_candidates soup pats []"
  from generate_selectors_key [OF cat, of soup content_types] cands
  have c: "cands = sorted_reverse cand_count tc"
    by (simp add: tc_def split: if_splits)
  have sorted: "sorted_wrt (\<lambda>a b. cand_count a \<ge> cand_count b) cands"
    unfolding c by (rule sorted_reverse_sorted)
  have stable: "map cand_selector (filter (\<lambda>c. cand_count c = k) cands) =
      filter (\<lambda>p. \<exists>els. select soup p = Inr els \<and> els \<noteq> [] \<and> length els = k) pats" for k
  proof -
    have "filter (\<lambda>c. cand_count c = k) cands = filter (\<lambda>c. cand_count c = k) tc"
      unfolding c by (rule sorted_reverse_stable)
    also have "\<dots> = filter (\<lambda>c. \<exists>els. select soup (cand_selector c) = Inr els \<and> els \<noteq> []
                                  \<and> length els = k) tc"
    proof (intro filter_cong refl)
      fix c assume "c \<in> set tc"
      from type_candidates_counts [OF this [unfolded tc_def]]
      show "(cand_count c = k) =
          (\<exists>els. select soup (cand_selector c) = Inr els \<and> els \<noteq> [] \<and> length els = k)"
        by auto
    qed
    finally have "map cand_selector (filter (\<lambda>c. cand_count c = k) cands) =
        filter (\<lambda>p. \<exists>els. select soup p = Inr els \<and> els \<noteq> [] \<and> length els = k)
          (map cand_selector tc)"
      by (simp add: filter_map comp_def)
    also have "\<dots> = filter (\<lambda>p. \<exists>els. select soup p = Inr els \<and> els \<noteq> [] \<and> length els = k) pats"
      unfolding tc_def type_candidates_selectors
      by (auto intro: filter_cong)
    finally show ?thesis .
  qed
  have "generate_selectors soup content_types' = generate_selectors soup content_types"
    by (simp add: generate_selectors_def)
  with eq sorted stable sorted_reverse_id [OF sorted] show ?thesis by simp
qed

lemma blog_soup_articles:
  "map_of (generate_selectors blog_soup (detect_content_types blog_soup)) ''articles'' =
     Some [\<lparr>cand_selector = ''[class*=\"article\"]'', cand_count = 3,
             cand_sample_text = Some ''News'', cand_description = None\<rparr>,
           \<lparr>cand_selector = ''article'', cand_count = 2,
             cand_sample_text = Some ''News'', cand_description = None\<rparr>,
           \<lparr>cand_selector = ''[class*=\"post\"]'', cand_count = 2,
             cand_sample_text = Some ''News'', cand_description = None\<rparr>]"
  by code_simp

theorem classification_repeatable_and_ranked_witness:
  "(''articles'', [''article'', ''[class*=\"article\"]'', ''[class*=\"post\"]''])
     \<in> set content_patterns
   \<and> map (select blog_soup) [''article'', ''[class*=\"article\"]'', ''[class*=\"post\"]'']
       = [Inr [1, 2], Inr [1, 2, 3], Inr [4, 5]]
   \<and> (\<exists>cands. map_of (generate_selectors blog_soup (detect_content_types blog_soup))
                  ''articles'' = Some cands
         \<and> map (\<lambda>c. (cand_selector c, cand_count c)) cands =
             [(''[class*=\"article\"]'', 3), (''article'', 2), (''[class*=\"post\"]'', 2)]
         \<and> sorted_wrt (\<lambda>a b. cand_count a \<ge> cand_count b) cands
         \<and> map cand_selector (filter (\<lambda>c. cand_count c = 2) cands) =
             filter (\<lambda>p. \<exists>els. select blog_soup p = Inr els \<and> els \<noteq> [] \<and> length els = 2)
               [''article'', ''[class*=\"article\"]'', ''[class*=\"post\"]'']
         \<and> sorted_reverse cand_count cands = cands)"
proof -
  have cat: "(''articles'', [''article'', ''[class*=\"article\"]'', ''[class*=\"post\"]''])
     \<in> set content_patterns"
    by (simp add: content_patterns_def)
  have m: "map (select blog_soup) [''article'', ''[class*=\"article\"]'', ''[class*=\"post\"]'']
       = [Inr [1, 2], Inr [1, 2, 3], Inr [4, 5]]"
    by (simp add: blog_soup_def)
  from classification_repeatable_and_ranked
         [OF refl refl refl refl cat blog_soup_articles, of "[]"] cat m blog_soup_articles
  show ?thesis by simp
qed

section \<open>Properties of the comprehensive analyzer and of the URL validation\<close>

lemma complexity_score_missing:
  "py_get (protection_view p) ''complexity_score'' (PyInt 0) = PyInt 0"
  by (simp add: py_get_def protection_view_def Let_def split: option.splits)

lemma total_score_present:
  "py_get (protection_view p) ''total_score'' (PyInt 0) = PyInt (total_score (tp_results p))"
  by (simp add: py_get_def protection_view_def Let_def)

lemma protection_advice_zero:
  "protection_advice l (PyInt 0) = Inr [(l, Simple_scraping), (l, Add_user_agent_headers)]"
  by (simp add: protection_advice_def)

lemma recommendations_for_protection:
  assumes "wr_protection results = Some p" and "wr_structure results = None"
  shows "generate_recommendations lm results =
     Inr [(if current_language lm = ''ru'' then Russian else English, Simple_scraping),
          (if current_language lm = ''ru'' then Russian else English, Add_user_agent_headers)]"
  using assms
  by (simp add: generate_recommendations_def Let_def complexity_score_missing
        protection_advice_zero)

lemma summary_for_protection:
  assumes "wr_protection results = Some p" and "wr_structure results = None"
  shows "\<exists>s. generate_summary lm now results = Inr s
    \<and> sm_scraping_difficulty s = get_text lm ''protection_low''
    \<and> sm_estimated_development_time s =
        (if current_language lm = ''ru'' then Russian else English, Days_1_2)
    \<and> sm_protection_score s = Some (PyInt 0)"
  using assms
  by (simp add: generate_summary_def rate_difficulty_def Let_def complexity_score_missing)

lemma unreachable_site_report:
  "protection_analyze no_capabilities unreachable_site ''http://example.com'' fresh_analyzer =
       Inr (\<lparr>pr_url = ''http://example.com'', pr_timestamp = ''2025-09-14 12:00:00'',
             mechanisms = [(''basic_access'',
                \<lparr>detected = False, score = 0, description = Status_size 0 0\<rparr>)],
             bypass_methods = [], total_score = 100, complexity_level = ''CRITICAL'',
             best_method = None, bypass_success_rate = None\<rparr>,
            fresh_analyzer\<lparr>requests_made := 1\<rparr>)"
proof -
  have h: "\<not> ba_accessible (fst (check_basic_access unreachable_site fresh_analyzer))"
    by (simp add: check_basic_access_def session_get_def unreachable_site_def plain_site_def
          fresh_analyzer_def)
  have b: "fst (check_basic_access unreachable_site fresh_analyzer) =
      \<lparr>ba_status_code = 0, ba_accessible = False, ba_error = Some ''Name or service not known'',
       ba_content_length = 0, ba_response_time = 0, ba_headers = []\<rparr>"
    by (simp add: check_basic_access_def session_get_def unreachable_site_def plain_site_def
          fresh_analyzer_def)
  show ?thesis
    using analyze_inaccessible [OF h, of no_capabilities "''http://example.com''"]
    by (simp add: b) (simp add: unreachable_site_def plain_site_def fresh_analyzer_def)
qed

lemma example_url_valid:
  "validate_url example_urlparse (Str ''http://example.com'') = Inr ''http://example.com''"
  by code_simp

lemma validate_url_cases:
  "(\<exists>v. validate_url urlparse url = Inl (ValueError v) \<and> v \<noteq> Invalid_url_text)
   \<or> (\<exists>u. validate_url urlparse url = Inr u \<and> u \<noteq> []
         \<and> (startswith u ''http://'' \<or> startswith u ''https://''))"
proof (cases url)
  case NotStr
  then show ?thesis by (simp add: validate_url_def)
next
  case (Str s)
  define n where "n = (if \<not> (startswith (strip s) ''http://'' \<or> startswith (strip s) ''https://'')
                        then ''https://'' @ strip s else strip s)"
  have sw: "startswith n ''http://'' \<or> startswith n ''https://''"
  proof (cases "startswith (strip s) ''http://'' \<or> startswith (strip s) ''https://''")
    case True
    then show ?thesis by (simp add: n_def del: startswith.simps)
  next
    case False
    then have "n = ''https://'' @ strip s" by (simp add: n_def del: startswith.simps)
    then show ?thesis by simp
  qed
  then have ne: "n \<noteq> []" by (cases n) auto
  have eq: "validate_url urlparse (Str s) =
     (if s = [] then Inl (ValueError Url_empty)
      else case urlparse n of
             Inl e \<Rightarrow> Inl (ValueError (Url_validation (Urlparse_failed e)))
           | Inr parsed \<Rightarrow>
               if pu_netloc parsed = [] then
                 Inl (ValueError (Url_validation Missing_domain))
               else if pu_scheme parsed \<notin> set [''http'', ''https''] then
                 Inl (ValueError (Url_validation Unsupported_scheme))
               else if \<not> domain_pattern_match (hd (split_on CHR '':'' (pu_netloc parsed))) then
                 Inl (ValueError (Url_validation Bad_domain_format))
               else Inr n)"
    unfolding n_def by (simp only: validate_url_def Let_def pyobj.case)
  show ?thesis
    unfolding Str eq using sw ne
    by (cases "urlparse n") (simp_all del: startswith.simps)
qed

text \<open>
  C5. The recommendations are meant to follow the total score of the protection report
  with the thresholds 40, 60 and 80, and the chain of comparisons has these thresholds, but
  the score is read from the key \<open>complexity_score\<close>, which no protection report has, so
  that it is always the default 0. The analysis of a site whose host name does not resolve
  shows it: the report has total score 100 and level CRITICAL, and the recommendations and
  the summary are those of the lowest tier.
\<close>

theorem critical_site_gets_lowest_tier_advice:
  "\<exists>results app'.
     analyze_website no_capabilities unreachable_site no_steps offline_web example_urlparse
       ''2025-09-14T12:00:00'' fresh_app (Str ''http://example.com'') ''protection'' None
       = Inr (results, app')
     \<and> map_option (\<lambda>p. total_score (tp_results p)) (wr_protection results) = Some 100
     \<and> map_option (\<lambda>p. complexity_level (tp_results p)) (wr_protection results)
         = Some ''CRITICAL''
     \<and> wr_recommendations results
         = Some [(English, Simple_scraping), (English, Add_user_agent_headers)]
     \<and> map_option sm_scraping_difficulty (wr_summary results) = Some ''LOW''
     \<and> map_option sm_estimated_development_time (wr_summary results)
         = Some (English, Days_1_2)"
proof -
  define p where "p = translate_protection_results english_manager
    \<lparr>pr_url = ''http://example.com'', pr_timestamp = ''2025-09-14 12:00:00'',
     mechanisms = [(''basic_access'',
        \<lparr>detected = False, score = 0, description = Status_size 0 0\<rparr>)],
     bypass_methods = [], total_score = 100, complexity_level = ''CRITICAL'',
     best_method = None, bypass_success_rate = None\<rparr>"
  define results where "results =
    \<lparr>wr_url = Str ''http://example.com'', wr_analysis_type = ''protection'',
     wr_language = ''en'', wr_timestamp = ''2025-09-14T12:00:00'', wr_version = ''3.1.0'',
     wr_protection = Some p, wr_structure = None, wr_recommendations = None,
     wr_summary = None\<rparr>"
  have t: "total_score (tp_results p) = 100" "complexity_level (tp_results p) = ''CRITICAL''"
    by (simp_all add: p_def translate_protection_results_def Let_def)
  have en: "current_language english_manager = ''en''"
    and low: "get_text english_manager ''protection_low'' = ''LOW''"
    by (simp_all add: english_manager_def get_text_def translation_tables_def)
  have rec: "generate_recommendations english_manager results =
      Inr [(English, Simple_scraping), (English, Add_user_agent_headers)]"
    using recommendations_for_protection [of results p english_manager]
    by (simp add: results_def en)
  obtain s where s: "generate_summary english_manager ''2025-09-14T12:00:00''
        (results\<lparr>wr_recommendations :=
           Some [(English, Simple_scraping), (English, Add_user_agent_headers)]\<rparr>) = Inr s"
      "sm_scraping_difficulty s = ''LOW''"
      "sm_estimated_development_time s = (English, Days_1_2)"
    using summary_for_protection [of "results\<lparr>wr_recommendations :=
           Some [(English, Simple_scraping), (English, Add_user_agent_headers)]\<rparr>" p
           english_manager "''2025-09-14T12:00:00''"]
    by (auto simp: results_def en low)
  have "analyze_website no_capabilities unreachable_site no_steps offline_web example_urlparse
       ''2025-09-14T12:00:00'' fresh_app (Str ''http://example.com'') ''protection'' None
       = Inr (results\<lparr>wr_recommendations :=
                 Some [(English, Simple_scraping), (English, Add_user_agent_headers)],
               wr_summary := Some s\<rparr>,
              fresh_app\<lparr>app_protection_analyzer := fresh_analyzer\<lparr>requests_made := 1\<rparr>,
                app_analysis_count := 1\<rparr>)"
    using rec s(1)
    by (simp add: analyze_website_def example_url_valid unreachable_site_report fresh_app_def
          en p_def [symmetric] results_def [symmetric] Let_def)
  then show ?thesis
    using t s(2,3) by (simp add: results_def)
qed

text \<open>
  C10. \<open>validate_url\<close> either raises a \<open>ValueError\<close> or returns a string that is not empty
  and begins with "http://" or "https://", for every argument and whatever the URL
  parser answers; so \<open>analyze_website\<close> never raises the \<open>ValueError\<close> of its branch
  \<open>if not validate_url(url)\<close>.
\<close>

theorem validate_url_raises_or_returns_url:
  "((\<exists>v. validate_url urlparse url = Inl (ValueError v))
    \<or> (\<exists>u. validate_url urlparse url = Inr u \<and> u \<noteq> []
          \<and> (startswith u ''http://'' \<or> startswith u ''https://'')))
   \<and> analyze_website caps w steps web urlparse now app url analysis_type language
       \<noteq> Inl (ValueError Invalid_url_text)"
proof -
  from validate_url_cases [of urlparse url]
  have v: "(\<exists>v. validate_url urlparse url = Inl (ValueError v))
    \<or> (\<exists>u. validate_url urlparse url = Inr u \<and> u \<noteq> []
          \<and> (startswith u ''http://'' \<or> startswith u ''https://''))"
    by auto
  have a: "analyze_website caps w steps web urlparse now app url analysis_type language
       \<noteq> Inl (ValueError Invalid_url_text)"
  proof (cases "validate_url urlparse url")
    case (Inl e)
    with validate_url_cases [of urlparse url] show ?thesis
      by (auto simp: analyze_website_def Let_def)
  next
    case (Inr u)
    with validate_url_cases [of urlparse url] have "u \<noteq> []" by auto
    with Inr show ?thesis
      by (simp add: analyze_website_def Let_def split: sum.splits prod.splits)
  qed
  from v a show ?thesis by (rule conjI)
qed

theorem validate_url_raises_or_returns_url_witness:
  "validate_url example_urlparse (Str '' example.com '') = Inr ''https://example.com''
   \<and> validate_url example_urlparse NotStr = Inl (ValueError Url_empty)
   \<and> analyze_website no_capabilities unreachable_site no_steps offline_web example_urlparse
        ''2025-09-14T12:00:00'' fresh_app (Str '' example.com '') ''both'' None
       \<noteq> Inl (ValueError Invalid_url_text)"
proof -
  have "validate_url example_urlparse (Str '' example.com '') = Inr ''https://example.com''"
    by code_simp
  moreover have "validate_url example_urlparse NotStr = Inl (ValueError Url_empty)"
    by (simp add: validate_url_def)
  ultimately show ?thesis
    using validate_url_raises_or_returns_url
            [of example_urlparse "Str '' example.com ''" no_capabilities unreachable_site
                no_steps offline_web "''2025-09-14T12:00:00''" fresh_app "''both''" None]
    by simp
qed

end
